theory Spec2Isabelle
  imports Main
begin

unbundle bit_operations_syntax

section \<open>The bounded one-way channel of libc/af_local.cc\<close>

subsection \<open>Constants and types declared outside the file\<close>

text \<open>
  Modelled from the spec: the poll event bits of \<^verbatim>\<open>osv/poll.h\<close>, which is not part of
  the sources. The spec names four independent event flags (read-ready, write-ready,
  read-hangup, write-hangup); they are given here as the distinct single bits of the Linux
  ABI that OSv follows. A mask is a C \<^verbatim>\<open>int\<close>, combined with \<^verbatim>\<open>|\<close> and tested with
  \<^verbatim>\<open>&\<close>.
\<close>

definition POLLIN :: int where "POLLIN = 1"
definition POLLOUT :: int where "POLLOUT = 4"
definition POLLHUP :: int where "POLLHUP = 16"
definition POLLRDHUP :: int where "POLLRDHUP = 8192"

text \<open>
  Modelled from the spec: the errno value of BrokenPipe (\<^verbatim>\<open>EPIPE\<close>) and the stream
  channel kind (\<^verbatim>\<open>SOCK_STREAM\<close>), from system headers that are not part of the sources.
\<close>

definition EPIPE :: int where "EPIPE = 32"
definition SOCK_STREAM :: int where "SOCK_STREAM = 1"

text \<open>
  Modelled from the spec: the scatter/gather descriptor (\<^verbatim>\<open>struct uio\<close> with its
  \<^verbatim>\<open>struct iovec\<close> segments), declared in headers that are not part of the sources.
  A segment designates a block of \<^verbatim>\<open>iov_len\<close> bytes of the caller's memory starting
  at \<^verbatim>\<open>iov_base\<close>; the model holds the bytes of that block, and \<open>iov_len\<close> is their
  number. \<open>uio_iov\<close> is the segment array and \<open>uio_resid\<close> the signed count
  (\<^verbatim>\<open>ssize_t\<close>) of bytes still to transfer; the caller computes the bytes transferred
  as the decrease of \<open>uio_resid\<close>. Sizes (\<^verbatim>\<open>size_t\<close>) are natural numbers; the
  only subtraction on them, \<^verbatim>\<open>max_buf - q.size()\<close>, is evaluated under the guard
  \<^verbatim>\<open>q.size() < max_buf\<close>. No pass of a copy loop moves more than the queue holds
  or has room for, so \<open>uio_resid\<close> stays far from the ends of its 64-bit range and is
  an unbounded integer here.
\<close>

record iovec =
  iov_base :: "char list"

definition iov_len :: "iovec \<Rightarrow> nat" where
  "iov_len iov = length (iov_base iov)"

record uio =
  uio_iov :: "iovec list"
  uio_resid :: int

text \<open>A \<^verbatim>\<open>struct file *\<close> is an address; \<^verbatim>\<open>nullptr\<close> is \<open>None\<close>.\<close>

type_synonym file_ptr = nat

subsection \<open>The buffer\<close>

definition max_buf :: nat where "max_buf = 8192"

record af_local_buffer =
  q :: "char list"
  receiver :: "file_ptr option"
  sender :: "file_ptr option"

text \<open>The default-constructed buffer: empty queue, nobody attached.\<close>

definition new_af_local_buffer :: af_local_buffer where
  "new_af_local_buffer = \<lparr>q = [], receiver = None, sender = None\<rparr>"

text \<open>
  What a call does besides changing the buffer: the notifications it sends to the polling
  subsystem (\<^verbatim>\<open>poll_wake(file, mask)\<close>, with the file pointer as passed) and the
  broadcasts on the two condition variables, in program order.
\<close>

datatype condvar = May_read | May_write

datatype event = Poll_wake "file_ptr option" int | Wake_all condvar

text \<open>
  How a call ends. \<open>Returns\<close> carries what the call leaves behind. \<open>Blocks\<close> is the
  call suspended in \<^verbatim>\<open>wait\<close> on its condition variable, the mutex released and nothing
  changed; a woken waiter evaluates the loop condition again, which is the same call made
  on the state it meets then. Every operation below holds the buffer's mutex from its
  first access of the state to its last, so calls of different threads are modelled as
  taking effect one after the other. \<open>Assert_failure\<close> is a failed \<^verbatim>\<open>assert\<close>,
  \<open>Fault\<close> a dereference of \<^verbatim>\<open>uio_iov\<close> when the segment array is empty. A loop that
  never exits is the value \<open>None\<close> of the enclosing option.
\<close>

datatype 'a outcome = Returns 'a | Blocks | Assert_failure | Fault

definition detach_sender :: "af_local_buffer \<Rightarrow> af_local_buffer \<times> event list" where
  "detach_sender b =
     (if sender b \<noteq> None then
        (b\<lparr>sender := None\<rparr>,
         (if receiver b \<noteq> None then [Poll_wake (receiver b) POLLRDHUP] else [])
           @ [Wake_all May_read])
      else (b, []))"

definition detach_receiver :: "af_local_buffer \<Rightarrow> af_local_buffer \<times> event list" where
  "detach_receiver b =
     (if receiver b \<noteq> None then
        (b\<lparr>receiver := None\<rparr>,
         (if sender b \<noteq> None then [Poll_wake (sender b) POLLHUP] else [])
           @ [Wake_all May_write])
      else (b, []))"

definition attach_sender :: "af_local_buffer \<Rightarrow> file_ptr \<Rightarrow> af_local_buffer outcome" where
  "attach_sender b f =
     (if sender b = None then Returns (b\<lparr>sender := Some f\<rparr>) else Assert_failure)"

definition attach_receiver :: "af_local_buffer \<Rightarrow> file_ptr \<Rightarrow> af_local_buffer outcome" where
  "attach_receiver b f =
     (if receiver b = None then Returns (b\<lparr>receiver := Some f\<rparr>) else Assert_failure)"

definition read_events_unlocked :: "af_local_buffer \<Rightarrow> int" where
  "read_events_unlocked b =
     (let ret = 0;
          ret = ret OR (if q b \<noteq> [] then POLLIN else 0);
          ret = ret OR (if sender b = None then POLLRDHUP else 0)
      in ret)"

definition write_events_unlocked :: "af_local_buffer \<Rightarrow> int" where
  "write_events_unlocked b =
     (if receiver b = None then POLLHUP
      else let ret = 0;
               ret = ret OR (if length (q b) < max_buf then POLLOUT else 0)
           in ret)"

definition read_events :: "af_local_buffer \<Rightarrow> int" where
  "read_events b = read_events_unlocked b"

definition write_events :: "af_local_buffer \<Rightarrow> int" where
  "write_events b = write_events_unlocked b"

text \<open>
  One pass of the copy loop of \<^verbatim>\<open>read\<close>: \<open>n\<close> bytes leave the front of the queue for
  the start of the block of the segment \<open>iov\<close>, which is always the first segment of the
  array, and \<open>uio_resid\<close> drops by \<open>n\<close>.
\<close>

definition read_pass :: "af_local_buffer \<Rightarrow> uio \<Rightarrow> iovec \<Rightarrow> iovec list \<Rightarrow> af_local_buffer \<times> uio" where
  "read_pass b data iov rest =
     (let n = min (length (q b)) (iov_len iov);
          p = take n (q b) @ drop n (iov_base iov)
      in (b\<lparr>q := drop n (q b)\<rparr>,
          data\<lparr>uio_iov := iov\<lparr>iov_base := p\<rparr> # rest, uio_resid := uio_resid data - int n\<rparr>))"

partial_function (option) read_loop ::
  "af_local_buffer \<Rightarrow> uio \<Rightarrow> (af_local_buffer \<times> uio) outcome option" where
  "read_loop b data =
     (if uio_resid data \<noteq> 0 \<and> read_events_unlocked b AND POLLIN \<noteq> 0 then
        (case uio_iov data of
           [] \<Rightarrow> Some Fault
         | iov # rest \<Rightarrow> (case read_pass b data iov rest of (b', data') \<Rightarrow> read_loop b' data'))
      else Some (Returns (b, data)))"

declare read_loop.simps [code]

text \<open>
  \<^verbatim>\<open>read\<close> returns an \<^verbatim>\<open>int\<close>, always 0; the result tuple is the return value, the
  buffer, the caller's descriptor and the events sent. The test before \<^verbatim>\<open>poll_wake\<close> is
  written with \<^verbatim>\<open>&&\<close> in the source, so it is a test of both operands against zero.
\<close>

definition read :: "af_local_buffer \<Rightarrow> uio \<Rightarrow> (int \<times> af_local_buffer \<times> uio \<times> event list) outcome option" where
  "read b data =
     (if uio_resid data = 0 then Some (Returns (0, b, data, []))
      else let r = read_events_unlocked b in
        if r = 0 then Some Blocks
        else if r AND POLLIN = 0 then
          (if r AND POLLRDHUP \<noteq> 0 then Some (Returns (0, b, data, [Wake_all May_write]))
           else Some Assert_failure)
        else
          (case read_loop b data of
             None \<Rightarrow> None
           | Some (Returns (b', data')) \<Rightarrow>
               Some (Returns (0, b', data',
                 (if write_events_unlocked b' \<noteq> 0 \<and> POLLOUT \<noteq> 0
                  then [Poll_wake (sender b') POLLOUT] else [])
                 @ [Wake_all May_write]))
           | Some Blocks \<Rightarrow> Some Blocks
           | Some Assert_failure \<Rightarrow> Some Assert_failure
           | Some Fault \<Rightarrow> Some Fault))"

text \<open>
  One pass of the copy loop of \<^verbatim>\<open>write\<close>: the first \<open>n\<close> bytes of the block of the
  segment \<open>iov\<close>, again always the first segment, go to the back of the queue.
\<close>

definition write_pass :: "af_local_buffer \<Rightarrow> uio \<Rightarrow> iovec \<Rightarrow> af_local_buffer \<times> uio" where
  "write_pass b data iov =
     (let n = min (max_buf - length (q b)) (iov_len iov);
          p = iov_base iov
      in (b\<lparr>q := q b @ take n p\<rparr>, data\<lparr>uio_resid := uio_resid data - int n\<rparr>))"

partial_function (option) write_loop ::
  "af_local_buffer \<Rightarrow> uio \<Rightarrow> (af_local_buffer \<times> uio) outcome option" where
  "write_loop b data =
     (if uio_resid data \<noteq> 0 \<and> write_events_unlocked b AND POLLOUT \<noteq> 0 then
        (case uio_iov data of
           [] \<Rightarrow> Some Fault
         | iov # rest \<Rightarrow> (case write_pass b data iov of (b', data') \<Rightarrow> write_loop b' data'))
      else Some (Returns (b, data)))"

declare write_loop.simps [code]

text \<open>
  \<^verbatim>\<open>af_local_buffer::write\<close>; the name \<open>write\<close> is taken by Isabelle, hence \<open>write_buf\<close>.
\<close>

definition write_buf :: "af_local_buffer \<Rightarrow> uio \<Rightarrow> (int \<times> af_local_buffer \<times> uio \<times> event list) outcome option" where
  "write_buf b data =
     (if uio_resid data = 0 then Some (Returns (0, b, data, []))
      else let err = 0; r = write_events_unlocked b in
        if r = 0 then Some Blocks
        else if r AND POLLOUT = 0 then
          (if r AND POLLHUP \<noteq> 0 then Some (Returns (EPIPE, b, data, [Wake_all May_read]))
           else Some Assert_failure)
        else
          (case write_loop b data of
             None \<Rightarrow> None
           | Some (Returns (b', data')) \<Rightarrow>
               Some (Returns (err, b', data',
                 (if read_events_unlocked b' \<noteq> 0 \<and> POLLIN \<noteq> 0
                  then [Poll_wake (receiver b') POLLIN] else [])
                 @ [Wake_all May_read]))
           | Some Blocks \<Rightarrow> Some Blocks
           | Some Assert_failure \<Rightarrow> Some Assert_failure
           | Some Fault \<Rightarrow> Some Fault))"

subsection \<open>Sequences of calls on one buffer\<close>

text \<open>
  The calls a buffer receives over its life, and the buffer each leaves behind. A call
  that waits has changed nothing when it is suspended, and the other threads go on from
  the same buffer; a call that never returns, faults or fails an assertion leaves no
  state to go on from.
\<close>

datatype call =
    Read uio
  | Write uio
  | Detach_sender
  | Detach_receiver
  | Attach_sender file_ptr
  | Attach_receiver file_ptr

definition after_call :: "af_local_buffer \<Rightarrow> call \<Rightarrow> af_local_buffer option" where
  "after_call b c =
     (case c of
        Read data \<Rightarrow>
          (case read b data of
             Some (Returns (r, b', data', evs)) \<Rightarrow> Some b'
           | Some Blocks \<Rightarrow> Some b
           | _ \<Rightarrow> None)
      | Write data \<Rightarrow>
          (case write_buf b data of
             Some (Returns (r, b', data', evs)) \<Rightarrow> Some b'
           | Some Blocks \<Rightarrow> Some b
           | _ \<Rightarrow> None)
      | Detach_sender \<Rightarrow> Some (fst (detach_sender b))
      | Detach_receiver \<Rightarrow> Some (fst (detach_receiver b))
      | Attach_sender f \<Rightarrow> (case attach_sender b f of Returns b' \<Rightarrow> Some b' | _ \<Rightarrow> None)
      | Attach_receiver f \<Rightarrow> (case attach_receiver b f of Returns b' \<Rightarrow> Some b' | _ \<Rightarrow> None))"

fun run :: "af_local_buffer \<Rightarrow> call list \<Rightarrow> af_local_buffer option" where
  "run b [] = Some b"
| "run b (c # cs) = (case after_call b c of None \<Rightarrow> None | Some b' \<Rightarrow> run b' cs)"

subsection \<open>The pair and its factory\<close>

text \<open>
  \<^verbatim>\<open>struct af_local\<close> holds two counted references to buffers. The factory makes
  exactly two buffers, so a reference is one of two names and the heap of buffers is a
  pair.
\<close>

datatype buffer_ref = B1 | B2

record af_local =
  send :: buffer_ref
  receive :: buffer_ref

record buffers =
  buf1 :: af_local_buffer
  buf2 :: af_local_buffer

definition get_buf :: "buffers \<Rightarrow> buffer_ref \<Rightarrow> af_local_buffer" where
  "get_buf h r = (case r of B1 \<Rightarrow> buf1 h | B2 \<Rightarrow> buf2 h)"

definition set_buf :: "buffers \<Rightarrow> buffer_ref \<Rightarrow> af_local_buffer \<Rightarrow> buffers" where
  "set_buf h r b = (case r of B1 \<Rightarrow> h\<lparr>buf1 := b\<rparr> | B2 \<Rightarrow> h\<lparr>buf2 := b\<rparr>)"

text \<open>\<^verbatim>\<open>af_local_init\<close>: the file \<open>f\<close> becomes sender of its send buffer and receiver of
  its receive buffer.\<close>

definition af_local_init :: "buffers \<Rightarrow> af_local \<Rightarrow> file_ptr \<Rightarrow> (int \<times> buffers) outcome" where
  "af_local_init h afl f =
     (case attach_sender (get_buf h (send afl)) f of
        Returns bs \<Rightarrow>
          (let h1 = set_buf h (send afl) bs in
           case attach_receiver (get_buf h1 (receive afl)) f of
             Returns br \<Rightarrow> Returns (0, set_buf h1 (receive afl) br)
           | Blocks \<Rightarrow> Blocks | Assert_failure \<Rightarrow> Assert_failure | Fault \<Rightarrow> Fault)
      | Blocks \<Rightarrow> Blocks | Assert_failure \<Rightarrow> Assert_failure | Fault \<Rightarrow> Fault)"

text \<open>
  Modelled from the spec: the file layer (\<^verbatim>\<open>falloc_noinstall\<close>, \<^verbatim>\<open>finit\<close>,
  \<^verbatim>\<open>fdesc\<close>) and \<^verbatim>\<open>libc_error\<close> are not part of the sources. Following the spec,
  allocating a handle or installing it as a descriptor either succeeds or fails with an
  error number, which the factory catches; \<^verbatim>\<open>finit\<close> binds the pair to the handle and
  activates it, which is \<open>af_local_init\<close>; after a failure everything built so far is
  released, so no buffer is left; \<^verbatim>\<open>libc_error\<close> stores the error number in
  \<^verbatim>\<open>errno\<close> and yields -1. The results of the two handle allocations (\<open>fa1\<close>,
  \<open>fa2\<close>) and of the two descriptor installations (\<open>fd1\<close>, \<open>fd2\<close>) are parameters:
  \<open>Inl\<close> is the error thrown.
\<close>

record socketpair_result =
  ret :: int
  errno :: "int option"
  sv :: "(int \<times> int) option"
  live :: "buffers option"

definition libc_error :: "int \<Rightarrow> socketpair_result" where
  "libc_error error = \<lparr>ret = - 1, errno = Some error, sv = None, live = None\<rparr>"

text \<open>
  \<^verbatim>\<open>socketpair_af_local\<close>, with both \<^verbatim>\<open>assert\<close>s as checks that abort the call. The
  two buffers and the two pairs are made after the assertions and before the first handle
  is asked for.
\<close>

definition socketpair_af_local ::
  "int \<Rightarrow> int \<Rightarrow> int + file_ptr \<Rightarrow> int + file_ptr \<Rightarrow> int + int \<Rightarrow> int + int
     \<Rightarrow> socketpair_result outcome" where
  "socketpair_af_local type proto fa1 fa2 fd1 fd2 =
     (if type \<noteq> SOCK_STREAM then Assert_failure
      else if proto \<noteq> 0 then Assert_failure
      else
        let h = \<lparr>buf1 = new_af_local_buffer, buf2 = new_af_local_buffer\<rparr>;
            s1 = \<lparr>send = B1, receive = B2\<rparr>;
            s2 = \<lparr>send = B2, receive = B1\<rparr>
        in case fa1 of
             Inl error \<Rightarrow> Returns (libc_error error)
           | Inr f1 \<Rightarrow>
          (case fa2 of
             Inl error \<Rightarrow> Returns (libc_error error)
           | Inr f2 \<Rightarrow>
          (case af_local_init h s1 f1 of
             Returns (r1, h1) \<Rightarrow>
               (case af_local_init h1 s2 f2 of
                  Returns (r2, h2) \<Rightarrow>
                    (case fd1 of
                       Inl error \<Rightarrow> Returns (libc_error error)
                     | Inr d1 \<Rightarrow>
                    (case fd2 of
                       Inl error \<Rightarrow> Returns (libc_error error)
                     | Inr d2 \<Rightarrow>
                         Returns \<lparr>ret = 0, errno = None, sv = Some (d1, d2), live = Some h2\<rparr>))
                | Blocks \<Rightarrow> Blocks | Assert_failure \<Rightarrow> Assert_failure | Fault \<Rightarrow> Fault)
           | Blocks \<Rightarrow> Blocks | Assert_failure \<Rightarrow> Assert_failure | Fault \<Rightarrow> Fault)))"

subsection \<open>What the two callers see\<close>

text \<open>
  The caller of a write takes the decrease of \<open>uio_resid\<close> as the number of bytes written,
  counted from the start of its segments; the caller of a read takes it as the number of
  bytes received, found at the start of its segments. \<open>written\<close> and \<open>delivered\<close> are
  those bytes for one call, and \<open>trace\<close> collects them over a sequence of calls, with the
  buffer the sequence leaves.
\<close>

definition uio_bytes :: "uio \<Rightarrow> char list" where
  "uio_bytes data = concat (map iov_base (uio_iov data))"

definition written :: "af_local_buffer \<Rightarrow> call \<Rightarrow> char list" where
  "written b c =
     (case c of
        Write data \<Rightarrow>
          (case write_buf b data of
             Some (Returns (r, b', data', evs)) \<Rightarrow>
               take (nat (uio_resid data - uio_resid data')) (uio_bytes data)
           | _ \<Rightarrow> [])
      | _ \<Rightarrow> [])"

definition delivered :: "af_local_buffer \<Rightarrow> call \<Rightarrow> char list" where
  "delivered b c =
     (case c of
        Read data \<Rightarrow>
          (case read b data of
             Some (Returns (r, b', data', evs)) \<Rightarrow>
               take (nat (uio_resid data - uio_resid data')) (uio_bytes data')
           | _ \<Rightarrow> [])
      | _ \<Rightarrow> [])"

fun trace :: "af_local_buffer \<Rightarrow> call list \<Rightarrow> (char list \<times> char list \<times> af_local_buffer) option" where
  "trace b [] = Some ([], [], b)"
| "trace b (c # cs) =
     (case after_call b c of
        None \<Rightarrow> None
      | Some b' \<Rightarrow>
          (case trace b' cs of
             None \<Rightarrow> None
           | Some (w, d, b'') \<Rightarrow> Some (written b c @ w, delivered b c @ d, b'')))"

text \<open>A request as \<^verbatim>\<open>read(2)\<close> and \<^verbatim>\<open>write(2)\<close> make it: one segment, all of it
  requested.\<close>

definition one_segment_uio :: "uio \<Rightarrow> bool" where
  "one_segment_uio data =
     (case uio_iov data of [iov] \<Rightarrow> uio_resid data = int (iov_len iov) | _ \<Rightarrow> False)"

fun one_segment :: "call \<Rightarrow> bool" where
  "one_segment (Read data) = one_segment_uio data"
| "one_segment (Write data) = one_segment_uio data"
| "one_segment _ = True"

section \<open>Properties\<close>

subsection \<open>The readiness masks, bit by bit\<close>

lemma read_events_POLLIN:
  "read_events_unlocked b AND POLLIN = (if q b \<noteq> [] then POLLIN else 0)"
  by (simp add: read_events_unlocked_def POLLIN_def POLLRDHUP_def)

lemma read_events_POLLRDHUP:
  "read_events_unlocked b AND POLLRDHUP = (if sender b = None then POLLRDHUP else 0)"
  by (simp add: read_events_unlocked_def POLLIN_def POLLRDHUP_def)

lemma read_events_zero:
  "read_events_unlocked b = 0 \<longleftrightarrow> q b = [] \<and> sender b \<noteq> None"
  by (simp add: read_events_unlocked_def POLLIN_def POLLRDHUP_def)

lemma write_events_POLLOUT:
  "write_events_unlocked b AND POLLOUT =
     (if receiver b \<noteq> None \<and> length (q b) < max_buf then POLLOUT else 0)"
  by (simp add: write_events_unlocked_def POLLOUT_def POLLHUP_def)

lemma write_events_POLLHUP:
  "write_events_unlocked b AND POLLHUP = (if receiver b = None then POLLHUP else 0)"
  by (simp add: write_events_unlocked_def POLLOUT_def POLLHUP_def)

lemma write_events_zero:
  "write_events_unlocked b = 0 \<longleftrightarrow> receiver b \<noteq> None \<and> \<not> length (q b) < max_buf"
  by (simp add: write_events_unlocked_def POLLOUT_def POLLHUP_def)

lemma poll_bits_nonzero: "POLLIN \<noteq> 0" "POLLOUT \<noteq> 0" "POLLHUP \<noteq> 0" "POLLRDHUP \<noteq> 0"
  by (simp_all add: POLLIN_def POLLOUT_def POLLHUP_def POLLRDHUP_def)

lemma read_loop_exit:
  "uio_resid data = 0 \<or> q b = [] \<Longrightarrow> read_loop b data = Some (Returns (b, data))"
  by (subst read_loop.simps) (auto simp: read_events_POLLIN)

lemma read_loop_enter:
  "uio_resid data \<noteq> 0 \<Longrightarrow> q b \<noteq> [] \<Longrightarrow> uio_iov data = iov # rest \<Longrightarrow>
   read_loop b data = read_loop (fst (read_pass b data iov rest)) (snd (read_pass b data iov rest))"
  by (subst read_loop.simps) (simp add: read_events_POLLIN poll_bits_nonzero split: prod.splits)

lemma read_loop_fault:
  "uio_resid data \<noteq> 0 \<Longrightarrow> q b \<noteq> [] \<Longrightarrow> uio_iov data = [] \<Longrightarrow> read_loop b data = Some Fault"
  by (subst read_loop.simps) (simp add: read_events_POLLIN poll_bits_nonzero)

lemma write_loop_exit:
  "uio_resid data = 0 \<or> receiver b = None \<or> \<not> length (q b) < max_buf \<Longrightarrow>
   write_loop b data = Some (Returns (b, data))"
  by (subst write_loop.simps) (auto simp: write_events_POLLOUT)

lemma write_loop_enter:
  "uio_resid data \<noteq> 0 \<Longrightarrow> receiver b \<noteq> None \<Longrightarrow> length (q b) < max_buf \<Longrightarrow>
   uio_iov data = iov # rest \<Longrightarrow>
   write_loop b data = write_loop (fst (write_pass b data iov)) (snd (write_pass b data iov))"
  by (subst write_loop.simps) (simp add: write_events_POLLOUT poll_bits_nonzero split: prod.splits)

lemma write_loop_fault:
  "uio_resid data \<noteq> 0 \<Longrightarrow> receiver b \<noteq> None \<Longrightarrow> length (q b) < max_buf \<Longrightarrow>
   uio_iov data = [] \<Longrightarrow> write_loop b data = Some Fault"
  by (subst write_loop.simps) (simp add: write_events_POLLOUT poll_bits_nonzero)

text \<open>What a pass changes.\<close>

lemma write_pass_simps:
  "q (fst (write_pass b data iov)) = q b @ take (min (max_buf - length (q b)) (iov_len iov)) (iov_base iov)"
  "receiver (fst (write_pass b data iov)) = receiver b"
  "sender (fst (write_pass b data iov)) = sender b"
  "uio_iov (snd (write_pass b data iov)) = uio_iov data"
  "uio_resid (snd (write_pass b data iov)) = uio_resid data - int (min (max_buf - length (q b)) (iov_len iov))"
  by (simp_all add: write_pass_def Let_def)

lemma read_pass_simps:
  "q (fst (read_pass b data iov rest)) = drop (min (length (q b)) (iov_len iov)) (q b)"
  "receiver (fst (read_pass b data iov rest)) = receiver b"
  "sender (fst (read_pass b data iov rest)) = sender b"
  "uio_iov (snd (read_pass b data iov rest)) =
     iov\<lparr>iov_base := take (min (length (q b)) (iov_len iov)) (q b)
                        @ drop (min (length (q b)) (iov_len iov)) (iov_base iov)\<rparr> # rest"
  "uio_resid (snd (read_pass b data iov rest)) = uio_resid data - int (min (length (q b)) (iov_len iov))"
  by (simp_all add: read_pass_def Let_def)

lemma write_loop_returns:
  assumes "uio_iov data = iov # rest" and "0 < iov_len iov"
  shows "\<exists>b' data'. write_loop b data = Some (Returns (b', data'))
           \<and> receiver b' = receiver b \<and> sender b' = sender b \<and> uio_iov data' = uio_iov data
           \<and> (\<exists>ys. q b' = q b @ ys \<and> int (length ys) = uio_resid data - uio_resid data')
           \<and> (length (q b) \<le> max_buf \<longrightarrow> length (q b') \<le> max_buf)
           \<and> (uio_resid data' = 0 \<or> receiver b' = None \<or> \<not> length (q b') < max_buf)"
  using assms
proof (induction "max_buf - length (q b)" arbitrary: b data rule: less_induct)
  case less
  show ?case
  proof (cases "uio_resid data \<noteq> 0 \<and> receiver b \<noteq> None \<and> length (q b) < max_buf")
    case False
    then have "write_loop b data = Some (Returns (b, data))"
      by (intro write_loop_exit) auto
    with False show ?thesis by auto
  next
    case True
    define b1 where "b1 = fst (write_pass b data iov)"
    define d1 where "d1 = snd (write_pass b data iov)"
    define n where "n = min (max_buf - length (q b)) (iov_len iov)"
    have n: "0 < n" "n \<le> max_buf - length (q b)" "n \<le> length (iov_base iov)"
      using True less.prems by (auto simp: n_def iov_len_def)
    have q1: "q b1 = q b @ take n (iov_base iov)"
      and r1: "receiver b1 = receiver b" and s1: "sender b1 = sender b"
      and i1: "uio_iov d1 = uio_iov data" and u1: "uio_resid d1 = uio_resid data - int n"
      by (simp_all add: b1_def d1_def n_def write_pass_simps)
    have len1: "length (q b1) = length (q b) + n"
      using n by (simp add: q1)
    have step: "write_loop b data = write_loop b1 d1"
      unfolding b1_def d1_def using True less.prems(1) by (intro write_loop_enter) auto
    have "max_buf - length (q b1) < max_buf - length (q b)"
      using n True len1 by arith
    from less.hyps [OF this, of d1] less.prems i1
    obtain b' data' ys where
      res: "write_loop b1 d1 = Some (Returns (b', data'))"
        "receiver b' = receiver b1" "sender b' = sender b1" "uio_iov data' = uio_iov d1"
        "q b' = q b1 @ ys" "int (length ys) = uio_resid d1 - uio_resid data'"
        "length (q b1) \<le> max_buf \<longrightarrow> length (q b') \<le> max_buf"
        "uio_resid data' = 0 \<or> receiver b' = None \<or> \<not> length (q b') < max_buf"
      by auto
    have "q b' = q b @ (take n (iov_base iov) @ ys)"
      by (simp add: res(5) q1)
    moreover have "int (length (take n (iov_base iov) @ ys)) = uio_resid data - uio_resid data'"
      using n res(6) u1 by simp
    moreover have "length (q b') \<le> max_buf"
      using res(7) len1 n True by arith
    ultimately show ?thesis
      using res step r1 s1 i1 by auto
  qed
qed

lemma read_loop_returns:
  assumes "uio_iov data = iov # rest" and "0 < iov_len iov"
  shows "\<exists>b' data' iov'. read_loop b data = Some (Returns (b', data'))
           \<and> receiver b' = receiver b \<and> sender b' = sender b
           \<and> uio_iov data' = iov' # rest \<and> iov_len iov' = iov_len iov
           \<and> (\<exists>xs. q b = xs @ q b' \<and> int (length xs) = uio_resid data - uio_resid data')
           \<and> (uio_resid data' = 0 \<or> q b' = [])"
  using assms
proof (induction "length (q b)" arbitrary: b data iov rule: less_induct)
  case less
  show ?case
  proof (cases "uio_resid data \<noteq> 0 \<and> q b \<noteq> []")
    case False
    then have "read_loop b data = Some (Returns (b, data))"
      by (intro read_loop_exit) auto
    with False less.prems show ?thesis by auto
  next
    case True
    define n where "n = min (length (q b)) (iov_len iov)"
    define b1 where "b1 = fst (read_pass b data iov rest)"
    define d1 where "d1 = snd (read_pass b data iov rest)"
    define iov1 where "iov1 = iov\<lparr>iov_base := take n (q b) @ drop n (iov_base iov)\<rparr>"
    have n: "0 < n" "n \<le> length (q b)" "n \<le> length (iov_base iov)"
      using True less.prems by (auto simp: n_def iov_len_def)
    have q1: "q b1 = drop n (q b)"
      and r1: "receiver b1 = receiver b" and s1: "sender b1 = sender b"
      and i1: "uio_iov d1 = iov1 # rest" and u1: "uio_resid d1 = uio_resid data - int n"
      by (simp_all add: b1_def d1_def n_def iov1_def read_pass_simps)
    have l1: "iov_len iov1 = iov_len iov"
      using n by (simp add: iov1_def iov_len_def)
    have step: "read_loop b data = read_loop b1 d1"
      unfolding b1_def d1_def using True less.prems(1) by (intro read_loop_enter) auto
    have "length (q b1) < length (q b)"
      using n by (simp add: q1)
    from less.hyps [OF this i1] l1 less.prems(2)
    obtain b' data' iov' xs where
      res: "read_loop b1 d1 = Some (Returns (b', data'))"
        "receiver b' = receiver b1" "sender b' = sender b1"
        "uio_iov data' = iov' # rest" "iov_len iov' = iov_len iov1"
        "q b1 = xs @ q b'" "int (length xs) = uio_resid d1 - uio_resid data'"
        "uio_resid data' = 0 \<or> q b' = []"
      by auto
    have a: "q b = (take n (q b) @ xs) @ q b'"
      using res(6) q1 by (metis append.assoc append_take_drop_id)
    have c: "int (length (take n (q b) @ xs)) = uio_resid data - uio_resid data'"
      using n res(7) u1 by simp
    have "\<exists>xs. q b = xs @ q b' \<and> int (length xs) = uio_resid data - uio_resid data'"
      using a c by blast
    then show ?thesis
      using res(1-5,8) step r1 s1 l1 by simp
  qed
qed

lemma write_pass_empty_segment:
  "iov_len iov = 0 \<Longrightarrow> write_pass b data iov = (b, data)"
  by (simp add: write_pass_def iov_len_def)

lemma read_pass_empty_segment:
  "iov_len iov = 0 \<Longrightarrow> uio_iov data = iov # rest \<Longrightarrow> read_pass b data iov rest = (b, data)"
  by (simp add: read_pass_def iov_len_def)

lemma write_loop_spins:
  assumes "uio_iov data = iov # rest" and "iov_len iov = 0"
    and "uio_resid data \<noteq> 0" and "receiver b \<noteq> None" and "length (q b) < max_buf"
  shows "write_loop b data = None"
proof -
  have *: "write_loop b data = Some y \<Longrightarrow>
        \<not> (\<exists>iov rest. uio_iov data = iov # rest \<and> iov_len iov = 0 \<and> uio_resid data \<noteq> 0
              \<and> receiver b \<noteq> None \<and> length (q b) < max_buf)" for y
  proof (induction rule: write_loop.raw_induct [rotated -1, consumes 1])
    case (1 f b data y)
    show ?case
    proof
      assume "\<exists>iov rest. uio_iov data = iov # rest \<and> iov_len iov = 0 \<and> uio_resid data \<noteq> 0
              \<and> receiver b \<noteq> None \<and> length (q b) < max_buf"
      then obtain iov rest where c: "uio_iov data = iov # rest" "iov_len iov = 0"
        "uio_resid data \<noteq> 0" "receiver b \<noteq> None" "length (q b) < max_buf"
        by blast
      with 1(2) have "f b data = Some y"
        by (simp add: write_events_POLLOUT poll_bits_nonzero write_pass_empty_segment)
      from 1(1) [OF this] c show False by blast
    qed
  qed
  have "write_loop b data \<noteq> Some y" for y
    using * [of y] assms by blast
  then show ?thesis by (metis not_Some_eq)
qed

lemma read_loop_spins:
  assumes "uio_iov data = iov # rest" and "iov_len iov = 0"
    and "uio_resid data \<noteq> 0" and "q b \<noteq> []"
  shows "read_loop b data = None"
proof -
  have *: "read_loop b data = Some y \<Longrightarrow>
        \<not> (\<exists>iov rest. uio_iov data = iov # rest \<and> iov_len iov = 0 \<and> uio_resid data \<noteq> 0
              \<and> q b \<noteq> [])" for y
  proof (induction rule: read_loop.raw_induct [rotated -1, consumes 1])
    case (1 f b data y)
    show ?case
    proof
      assume "\<exists>iov rest. uio_iov data = iov # rest \<and> iov_len iov = 0 \<and> uio_resid data \<noteq> 0
              \<and> q b \<noteq> []"
      then obtain iov rest where c: "uio_iov data = iov # rest" "iov_len iov = 0"
        "uio_resid data \<noteq> 0" "q b \<noteq> []"
        by blast
      with 1(2) have "f b data = Some y"
        by (simp add: read_events_POLLIN poll_bits_nonzero read_pass_empty_segment)
      from 1(1) [OF this] c show False by blast
    qed
  qed
  have "read_loop b data \<noteq> Some y" for y
    using * [of y] assms by blast
  then show ?thesis by (metis not_Some_eq)
qed

lemma read_loop_one_pass:
  assumes "uio_iov data = iov # rest" and "uio_resid data \<noteq> 0" and "q b \<noteq> []"
    and "uio_resid data = int (iov_len iov) \<or> length (q b) \<le> iov_len iov"
  shows "read_loop b data = Some (Returns (read_pass b data iov rest))"
proof -
  have "read_loop b data =
        read_loop (fst (read_pass b data iov rest)) (snd (read_pass b data iov rest))"
    using assms by (intro read_loop_enter)
  also have "\<dots> = Some (Returns (fst (read_pass b data iov rest), snd (read_pass b data iov rest)))"
    using assms(4) by (intro read_loop_exit) (auto simp: read_pass_simps)
  finally show ?thesis by simp
qed

lemma write_loop_one_pass:
  assumes "uio_iov data = iov # rest" and "uio_resid data \<noteq> 0"
    and "receiver b \<noteq> None" and "length (q b) < max_buf"
    and "uio_resid data = int (iov_len iov) \<or> max_buf - length (q b) \<le> iov_len iov"
  shows "write_loop b data = Some (Returns (write_pass b data iov))"
proof -
  have "write_loop b data =
        write_loop (fst (write_pass b data iov)) (snd (write_pass b data iov))"
    using assms by (intro write_loop_enter)
  also have "\<dots> = Some (Returns (fst (write_pass b data iov), snd (write_pass b data iov)))"
    using assms(4,5) by (intro write_loop_exit) (auto simp: write_pass_simps iov_len_def)
  finally show ?thesis by simp
qed

subsection \<open>The paths through read and write\<close>

lemma read_zero_length: "uio_resid data = 0 \<Longrightarrow> read b data = Some (Returns (0, b, data, []))"
  by (simp add: read_def)

lemma read_blocks:
  "uio_resid data \<noteq> 0 \<Longrightarrow> q b = [] \<Longrightarrow> sender b \<noteq> None \<Longrightarrow> read b data = Some Blocks"
  by (simp add: read_def read_events_zero)

lemma read_hangup:
  "uio_resid data \<noteq> 0 \<Longrightarrow> q b = [] \<Longrightarrow> sender b = None \<Longrightarrow>
   read b data = Some (Returns (0, b, data, [Wake_all May_write]))"
  by (simp add: read_def Let_def read_events_zero read_events_POLLIN read_events_POLLRDHUP
      poll_bits_nonzero)

lemma read_transfer:
  "uio_resid data \<noteq> 0 \<Longrightarrow> q b \<noteq> [] \<Longrightarrow> read_loop b data = Some (Returns (b', data')) \<Longrightarrow>
   read b data = Some (Returns (0, b', data',
     (if write_events_unlocked b' \<noteq> 0 then [Poll_wake (sender b') POLLOUT] else [])
     @ [Wake_all May_write]))"
  by (simp add: read_def Let_def read_events_zero read_events_POLLIN poll_bits_nonzero)

lemma read_diverges:
  "uio_resid data \<noteq> 0 \<Longrightarrow> q b \<noteq> [] \<Longrightarrow> read_loop b data = None \<Longrightarrow> read b data = None"
  by (simp add: read_def Let_def read_events_zero read_events_POLLIN poll_bits_nonzero)

lemma write_zero_length:
  "uio_resid data = 0 \<Longrightarrow> write_buf b data = Some (Returns (0, b, data, []))"
  by (simp add: write_buf_def)

lemma write_blocks:
  "uio_resid data \<noteq> 0 \<Longrightarrow> receiver b \<noteq> None \<Longrightarrow> \<not> length (q b) < max_buf \<Longrightarrow>
   write_buf b data = Some Blocks"
  by (simp add: write_buf_def write_events_zero)

lemma write_hangup:
  "uio_resid data \<noteq> 0 \<Longrightarrow> receiver b = None \<Longrightarrow>
   write_buf b data = Some (Returns (EPIPE, b, data, [Wake_all May_read]))"
  by (simp add: write_buf_def Let_def write_events_zero write_events_POLLOUT write_events_POLLHUP
      poll_bits_nonzero)

lemma write_transfer:
  "uio_resid data \<noteq> 0 \<Longrightarrow> receiver b \<noteq> None \<Longrightarrow> length (q b) < max_buf \<Longrightarrow>
   write_loop b data = Some (Returns (b', data')) \<Longrightarrow>
   write_buf b data = Some (Returns (0, b', data',
     (if read_events_unlocked b' \<noteq> 0 then [Poll_wake (receiver b') POLLIN] else [])
     @ [Wake_all May_read]))"
  by (simp add: write_buf_def Let_def write_events_zero write_events_POLLOUT poll_bits_nonzero)

lemma write_diverges:
  "uio_resid data \<noteq> 0 \<Longrightarrow> receiver b \<noteq> None \<Longrightarrow> length (q b) < max_buf \<Longrightarrow>
   write_loop b data = None \<Longrightarrow> write_buf b data = None"
  by (simp add: write_buf_def Let_def write_events_zero write_events_POLLOUT poll_bits_nonzero)

subsection \<open>What the copy loops leave behind, whenever they exit\<close>

lemma write_loop_result:
  "write_loop b data = Some y \<Longrightarrow>
   y = Fault \<or>
   (\<exists>b' data'. y = Returns (b', data')
      \<and> receiver b' = receiver b \<and> sender b' = sender b \<and> uio_iov data' = uio_iov data
      \<and> (\<exists>ys. q b' = q b @ ys \<and> int (length ys) = uio_resid data - uio_resid data')
      \<and> (length (q b) \<le> max_buf \<longrightarrow> length (q b') \<le> max_buf)
      \<and> (uio_resid data' = 0 \<or> receiver b' = None \<or> \<not> length (q b') < max_buf))"
proof (induction rule: write_loop.raw_induct [rotated -1, consumes 1])
  case (1 f b data y)
  show ?case
  proof (cases "uio_resid data \<noteq> 0 \<and> receiver b \<noteq> None \<and> length (q b) < max_buf")
    case False
    with 1(2) have "y = Returns (b, data)"
      by (auto simp: write_events_POLLOUT)
    with False show ?thesis by auto
  next
    case True
    show ?thesis
    proof (cases "uio_iov data")
      case Nil
      with True 1(2) show ?thesis
        by (simp add: write_events_POLLOUT poll_bits_nonzero)
    next
      case (Cons iov rest)
      define b1 where "b1 = fst (write_pass b data iov)"
      define d1 where "d1 = snd (write_pass b data iov)"
      define n where "n = min (max_buf - length (q b)) (iov_len iov)"
      have n: "n \<le> max_buf - length (q b)" "n \<le> length (iov_base iov)"
        by (auto simp: n_def iov_len_def)
      have q1: "q b1 = q b @ take n (iov_base iov)"
        and r1: "receiver b1 = receiver b" and s1: "sender b1 = sender b"
        and i1: "uio_iov d1 = uio_iov data" and u1: "uio_resid d1 = uio_resid data - int n"
        by (simp_all add: b1_def d1_def n_def write_pass_simps)
      have len1: "length (q b1) = length (q b) + n"
        using n by (simp add: q1)
      from True Cons 1(2) have "f b1 d1 = Some y"
        by (simp add: write_events_POLLOUT poll_bits_nonzero b1_def d1_def split: prod.splits)
      from 1(1) [OF this] show ?thesis
      proof
        assume "y = Fault" then show ?thesis ..
      next
        assume "\<exists>b' data'. y = Returns (b', data')
          \<and> receiver b' = receiver b1 \<and> sender b' = sender b1 \<and> uio_iov data' = uio_iov d1
          \<and> (\<exists>ys. q b' = q b1 @ ys \<and> int (length ys) = uio_resid d1 - uio_resid data')
          \<and> (length (q b1) \<le> max_buf \<longrightarrow> length (q b') \<le> max_buf)
          \<and> (uio_resid data' = 0 \<or> receiver b' = None \<or> \<not> length (q b') < max_buf)"
        then obtain b' data' ys where
          res: "y = Returns (b', data')"
            "receiver b' = receiver b1" "sender b' = sender b1" "uio_iov data' = uio_iov d1"
            "q b' = q b1 @ ys" "int (length ys) = uio_resid d1 - uio_resid data'"
            "length (q b1) \<le> max_buf \<longrightarrow> length (q b') \<le> max_buf"
            "uio_resid data' = 0 \<or> receiver b' = None \<or> \<not> length (q b') < max_buf"
          by blast
        have a: "q b' = q b @ (take n (iov_base iov) @ ys)"
          by (simp add: res(5) q1)
        have c: "int (length (take n (iov_base iov) @ ys)) = uio_resid data - uio_resid data'"
          using n res(6) u1 by simp
        have e: "\<exists>ys. q b' = q b @ ys \<and> int (length ys) = uio_resid data - uio_resid data'"
          using a c by blast
        have "length (q b') \<le> max_buf"
          using res(7) len1 n True by arith
        with e res(1-4,8) r1 s1 i1 show ?thesis by simp
      qed
    qed
  qed
qed

lemma read_loop_result:
  "read_loop b data = Some y \<Longrightarrow>
   y = Fault \<or>
   (\<exists>b' data'. y = Returns (b', data')
      \<and> receiver b' = receiver b \<and> sender b' = sender b
      \<and> (\<exists>xs. q b = xs @ q b' \<and> int (length xs) = uio_resid data - uio_resid data')
      \<and> (uio_resid data' = 0 \<or> q b' = []))"
proof (induction rule: read_loop.raw_induct [rotated -1, consumes 1])
  case (1 f b data y)
  show ?case
  proof (cases "uio_resid data \<noteq> 0 \<and> q b \<noteq> []")
    case False
    with 1(2) have "y = Returns (b, data)"
      by (auto simp: read_events_POLLIN)
    with False show ?thesis by auto
  next
    case True
    show ?thesis
    proof (cases "uio_iov data")
      case Nil
      with True 1(2) show ?thesis
        by (simp add: read_events_POLLIN poll_bits_nonzero)
    next
      case (Cons iov rest)
      define b1 where "b1 = fst (read_pass b data iov rest)"
      define d1 where "d1 = snd (read_pass b data iov rest)"
      define n where "n = min (length (q b)) (iov_len iov)"
      have n: "n \<le> length (q b)"
        by (auto simp: n_def)
      have q1: "q b1 = drop n (q b)"
        and r1: "receiver b1 = receiver b" and s1: "sender b1 = sender b"
        and u1: "uio_resid d1 = uio_resid data - int n"
        by (simp_all add: b1_def d1_def n_def read_pass_simps)
      from True Cons 1(2) have "f b1 d1 = Some y"
        by (simp add: read_events_POLLIN poll_bits_nonzero b1_def d1_def split: prod.splits)
      from 1(1) [OF this] show ?thesis
      proof
        assume "y = Fault" then show ?thesis ..
      next
        assume "\<exists>b' data'. y = Returns (b', data')
          \<and> receiver b' = receiver b1 \<and> sender b' = sender b1
          \<and> (\<exists>xs. q b1 = xs @ q b' \<and> int (length xs) = uio_resid d1 - uio_resid data')
          \<and> (uio_resid data' = 0 \<or> q b' = [])"
        then obtain b' data' xs where
          res: "y = Returns (b', data')"
            "receiver b' = receiver b1" "sender b' = sender b1"
            "q b1 = xs @ q b'" "int (length xs) = uio_resid d1 - uio_resid data'"
            "uio_resid data' = 0 \<or> q b' = []"
          by blast
        have a: "q b = (take n (q b) @ xs) @ q b'"
          using res(4) q1 by (metis append.assoc append_take_drop_id)
        have c: "int (length (take n (q b) @ xs)) = uio_resid data - uio_resid data'"
          using n res(5) u1 by simp
        have "\<exists>xs. q b = xs @ q b' \<and> int (length xs) = uio_resid data - uio_resid data'"
          using a c by blast
        with res(1-3,6) r1 s1 show ?thesis by simp
      qed
    qed
  qed
qed

lemma detach_sender_simps:
  "sender (fst (detach_sender b)) = None"
  "receiver (fst (detach_sender b)) = receiver b"
  "q (fst (detach_sender b)) = q b"
  by (simp_all add: detach_sender_def)

lemma detach_receiver_simps:
  "receiver (fst (detach_receiver b)) = None"
  "sender (fst (detach_receiver b)) = sender b"
  "q (fst (detach_receiver b)) = q b"
  by (simp_all add: detach_receiver_def)

lemma write_buf_cases [case_names zero hangup blocks diverges fault transfer]:
  obtains
    "uio_resid data = 0" "write_buf b data = Some (Returns (0, b, data, []))"
  | "uio_resid data \<noteq> 0" "receiver b = None"
      "write_buf b data = Some (Returns (EPIPE, b, data, [Wake_all May_read]))"
  | "uio_resid data \<noteq> 0" "receiver b \<noteq> None" "\<not> length (q b) < max_buf"
      "write_buf b data = Some Blocks"
  | "uio_resid data \<noteq> 0" "receiver b \<noteq> None" "length (q b) < max_buf"
      "write_loop b data = None" "write_buf b data = None"
  | "uio_resid data \<noteq> 0" "receiver b \<noteq> None" "length (q b) < max_buf"
      "write_loop b data = Some Fault" "write_buf b data = Some Fault"
  | b1 d1 where "uio_resid data \<noteq> 0" "receiver b \<noteq> None" "length (q b) < max_buf"
      "write_loop b data = Some (Returns (b1, d1))"
      "write_buf b data = Some (Returns (0, b1, d1,
         (if read_events_unlocked b1 \<noteq> 0 then [Poll_wake (receiver b1) POLLIN] else [])
         @ [Wake_all May_read]))"
proof (cases "uio_resid data \<noteq> 0 \<and> receiver b \<noteq> None \<and> length (q b) < max_buf")
  case False
  then consider "uio_resid data = 0" | "uio_resid data \<noteq> 0" "receiver b = None"
    | "uio_resid data \<noteq> 0" "receiver b \<noteq> None" "\<not> length (q b) < max_buf"
    by blast
  then show ?thesis
  proof cases
    case 1 with that(1) show ?thesis by (simp add: write_zero_length)
  next
    case 2 with that(2) show ?thesis by (simp add: write_hangup)
  next
    case 3 with that(3) show ?thesis by (simp add: write_blocks)
  qed
next
  case True
  show ?thesis
  proof (cases "write_loop b data")
    case None
    with True that(4) show ?thesis by (simp add: write_diverges)
  next
    case (Some y)
    from write_loop_result [OF Some] show ?thesis
    proof
      assume y: "y = Fault"
      with True Some have "write_buf b data = Some Fault"
        by (simp add: write_buf_def Let_def write_events_zero write_events_POLLOUT
            poll_bits_nonzero)
      with True Some y that(5) show ?thesis by simp
    next
      assume "\<exists>b1 d1. y = Returns (b1, d1)
        \<and> receiver b1 = receiver b \<and> sender b1 = sender b \<and> uio_iov d1 = uio_iov data
        \<and> (\<exists>ys. q b1 = q b @ ys \<and> int (length ys) = uio_resid data - uio_resid d1)
        \<and> (length (q b) \<le> max_buf \<longrightarrow> length (q b1) \<le> max_buf)
        \<and> (uio_resid d1 = 0 \<or> receiver b1 = None \<or> \<not> length (q b1) < max_buf)"
      then obtain b1 d1 where y: "y = Returns (b1, d1)"
        by blast
      from True Some y have "write_buf b data = Some (Returns (0, b1, d1,
          (if read_events_unlocked b1 \<noteq> 0 then [Poll_wake (receiver b1) POLLIN] else [])
          @ [Wake_all May_read]))"
        by (intro write_transfer) auto
      with True Some y that(6) show ?thesis by simp
    qed
  qed
qed

lemma read_cases [case_names zero hangup blocks diverges fault transfer]:
  obtains
    "uio_resid data = 0" "read b data = Some (Returns (0, b, data, []))"
  | "uio_resid data \<noteq> 0" "q b = []" "sender b = None"
      "read b data = Some (Returns (0, b, data, [Wake_all May_write]))"
  | "uio_resid data \<noteq> 0" "q b = []" "sender b \<noteq> None" "read b data = Some Blocks"
  | "uio_resid data \<noteq> 0" "q b \<noteq> []" "read_loop b data = None" "read b data = None"
  | "uio_resid data \<noteq> 0" "q b \<noteq> []" "read_loop b data = Some Fault"
      "read b data = Some Fault"
  | b1 d1 where "uio_resid data \<noteq> 0" "q b \<noteq> []"
      "read_loop b data = Some (Returns (b1, d1))"
      "read b data = Some (Returns (0, b1, d1,
         (if write_events_unlocked b1 \<noteq> 0 then [Poll_wake (sender b1) POLLOUT] else [])
         @ [Wake_all May_write]))"
proof (cases "uio_resid data \<noteq> 0 \<and> q b \<noteq> []")
  case False
  then consider "uio_resid data = 0" | "uio_resid data \<noteq> 0" "q b = []" "sender b = None"
    | "uio_resid data \<noteq> 0" "q b = []" "sender b \<noteq> None"
    by blast
  then show ?thesis
  proof cases
    case 1 with that(1) show ?thesis by (simp add: read_zero_length)
  next
    case 2 with that(2) show ?thesis by (simp add: read_hangup)
  next
    case 3 with that(3) show ?thesis by (simp add: read_blocks)
  qed
next
  case True
  show ?thesis
  proof (cases "read_loop b data")
    case None
    with True that(4) show ?thesis by (simp add: read_diverges)
  next
    case (Some y)
    from read_loop_result [OF Some] show ?thesis
    proof
      assume y: "y = Fault"
      with True Some have "read b data = Some Fault"
        by (simp add: read_def Let_def read_events_zero read_events_POLLIN poll_bits_nonzero)
      with True Some y that(5) show ?thesis by simp
    next
      assume "\<exists>b1 d1. y = Returns (b1, d1)
        \<and> receiver b1 = receiver b \<and> sender b1 = sender b
        \<and> (\<exists>xs. q b = xs @ q b1 \<and> int (length xs) = uio_resid data - uio_resid d1)
        \<and> (uio_resid d1 = 0 \<or> q b1 = [])"
      then obtain b1 d1 where y: "y = Returns (b1, d1)"
        by blast
      from True Some y have "read b data = Some (Returns (0, b1, d1,
          (if write_events_unlocked b1 \<noteq> 0 then [Poll_wake (sender b1) POLLOUT] else [])
          @ [Wake_all May_write]))"
        by (intro read_transfer) auto
      with True Some y that(6) show ?thesis by simp
    qed
  qed
qed

lemma write_buf_Blocks_iff:
  "write_buf b data = Some Blocks \<longleftrightarrow>
   uio_resid data \<noteq> 0 \<and> receiver b \<noteq> None \<and> \<not> length (q b) < max_buf"
  by (cases rule: write_buf_cases [where b = b and data = data]) auto

lemma write_buf_no_assert: "write_buf b data \<noteq> Some Assert_failure"
  by (cases rule: write_buf_cases [where b = b and data = data]) auto

lemma read_Blocks_iff:
  "read b data = Some Blocks \<longleftrightarrow> uio_resid data \<noteq> 0 \<and> q b = [] \<and> sender b \<noteq> None"
  by (cases rule: read_cases [where b = b and data = data]) auto

lemma read_no_assert: "read b data \<noteq> Some Assert_failure"
  by (cases rule: read_cases [where b = b and data = data]) auto


lemma read_result:
  assumes "read b data = Some (Returns (r, b', data', evs))"
  shows "r = 0 \<and> receiver b' = receiver b \<and> sender b' = sender b
         \<and> (\<exists>xs. q b = xs @ q b' \<and> int (length xs) = uio_resid data - uio_resid data')
         \<and> (uio_resid data \<noteq> 0 \<and> q b \<noteq> [] \<longrightarrow> uio_resid data' = 0 \<or> q b' = [])"
proof (cases rule: read_cases [where b = b and data = data])
  case (transfer b1 d1)
  from read_loop_result [OF transfer(3)] transfer(4) assms show ?thesis by auto
qed (use assms in auto)

lemma write_result:
  assumes "write_buf b data = Some (Returns (r, b', data', evs))"
  shows "(r = 0 \<or> r = EPIPE)
         \<and> (r \<noteq> 0 \<longrightarrow> receiver b = None \<and> b' = b \<and> data' = data)
         \<and> receiver b' = receiver b \<and> sender b' = sender b
         \<and> (\<exists>ys. q b' = q b @ ys \<and> int (length ys) = uio_resid data - uio_resid data')
         \<and> (length (q b) \<le> max_buf \<longrightarrow> length (q b') \<le> max_buf)
         \<and> (receiver b \<noteq> None \<and> length (q b) < max_buf \<longrightarrow>
              uio_resid data' = 0 \<or> \<not> length (q b') < max_buf)"
proof (cases rule: write_buf_cases [where b = b and data = data])
  case (transfer b1 d1)
  from write_loop_result [OF transfer(4)] transfer(2,5) assms show ?thesis by auto
qed (use assms in auto)

subsection \<open>Progress of a call that returns\<close>

lemma write_loop_progress:
  assumes "write_loop b data = Some (Returns (b', data'))"
    and "uio_resid data \<noteq> 0" and "receiver b \<noteq> None" and "length (q b) < max_buf"
  shows "length (q b) < length (q b')"
proof (cases "uio_iov data")
  case Nil
  with assms show ?thesis by (simp add: write_loop_fault)
next
  case (Cons iov rest)
  show ?thesis
  proof (cases "iov_len iov = 0")
    case True
    with Cons assms show ?thesis by (simp add: write_loop_spins)
  next
    case False
    define b1 where "b1 = fst (write_pass b data iov)"
    define d1 where "d1 = snd (write_pass b data iov)"
    have "write_loop b data = write_loop b1 d1"
      unfolding b1_def d1_def using assms Cons by (intro write_loop_enter)
    with assms(1) have "write_loop b1 d1 = Some (Returns (b', data'))" by simp
    from write_loop_result [OF this] obtain ys where "q b' = q b1 @ ys" by auto
    moreover have "length (q b) < length (q b1)"
      using False assms(4) by (simp add: b1_def write_pass_simps iov_len_def)
    ultimately show ?thesis by simp
  qed
qed

lemma read_loop_progress:
  assumes "read_loop b data = Some (Returns (b', data'))"
    and "uio_resid data \<noteq> 0" and "q b \<noteq> []"
  shows "length (q b') < length (q b)"
proof (cases "uio_iov data")
  case Nil
  with assms show ?thesis by (simp add: read_loop_fault)
next
  case (Cons iov rest)
  show ?thesis
  proof (cases "iov_len iov = 0")
    case True
    with Cons assms show ?thesis by (simp add: read_loop_spins)
  next
    case False
    define b1 where "b1 = fst (read_pass b data iov rest)"
    define d1 where "d1 = snd (read_pass b data iov rest)"
    have "read_loop b data = read_loop b1 d1"
      unfolding b1_def d1_def using assms Cons by (intro read_loop_enter)
    with assms(1) have "read_loop b1 d1 = Some (Returns (b', data'))" by simp
    from read_loop_result [OF this] obtain xs where "q b1 = xs @ q b'" by auto
    then have "length (q b') \<le> length (q b1)"
      by (metis length_append le_add2)
    moreover have "length (q b1) < length (q b)"
      using False assms(3) by (simp add: b1_def read_pass_simps iov_len_def)
    ultimately show ?thesis by simp
  qed
qed

subsection \<open>Calls with one pass of the copy loop\<close>

lemma read_one_pass:
  assumes "uio_iov data = iov # rest" and "uio_resid data \<noteq> 0" and "q b \<noteq> []"
    and "uio_resid data = int (iov_len iov) \<or> length (q b) \<le> iov_len iov"
    and "n = min (length (q b)) (iov_len iov)"
  shows "read b data = Some (Returns (0, b\<lparr>q := drop n (q b)\<rparr>,
           data\<lparr>uio_iov := iov\<lparr>iov_base := take n (q b) @ drop n (iov_base iov)\<rparr> # rest,
                uio_resid := uio_resid data - int n\<rparr>,
           (if write_events_unlocked (b\<lparr>q := drop n (q b)\<rparr>) \<noteq> 0
            then [Poll_wake (sender b) POLLOUT] else []) @ [Wake_all May_write]))"
proof -
  have "read_loop b data = Some (Returns (read_pass b data iov rest))"
    using assms(1-4) by (intro read_loop_one_pass)
  then have "read_loop b data = Some (Returns (b\<lparr>q := drop n (q b)\<rparr>,
           data\<lparr>uio_iov := iov\<lparr>iov_base := take n (q b) @ drop n (iov_base iov)\<rparr> # rest,
                uio_resid := uio_resid data - int n\<rparr>))"
    by (simp add: read_pass_def Let_def assms(5))
  from read_transfer [OF assms(2,3) this] show ?thesis by simp
qed

lemma write_one_pass:
  assumes "uio_iov data = iov # rest" and "uio_resid data \<noteq> 0"
    and "receiver b \<noteq> None" and "length (q b) < max_buf"
    and "uio_resid data = int (iov_len iov) \<or> max_buf - length (q b) \<le> iov_len iov"
    and "n = min (max_buf - length (q b)) (iov_len iov)"
  shows "write_buf b data = Some (Returns (0, b\<lparr>q := q b @ take n (iov_base iov)\<rparr>,
           data\<lparr>uio_resid := uio_resid data - int n\<rparr>,
           (if read_events_unlocked (b\<lparr>q := q b @ take n (iov_base iov)\<rparr>) \<noteq> 0
            then [Poll_wake (receiver b) POLLIN] else []) @ [Wake_all May_read]))"
proof -
  have "write_loop b data = Some (Returns (write_pass b data iov))"
    using assms(1-5) by (intro write_loop_one_pass)
  then have "write_loop b data = Some (Returns (b\<lparr>q := q b @ take n (iov_base iov)\<rparr>,
           data\<lparr>uio_resid := uio_resid data - int n\<rparr>))"
    by (simp add: write_pass_def Let_def assms(6))
  from write_transfer [OF assms(2,3,4) this] show ?thesis by simp
qed

subsection \<open>Capacity\<close>

lemma write_buf_truncates:
  assumes "receiver b \<noteq> None" and "length (q b) < max_buf"
    and "uio_iov data = iov # rest" and "0 < iov_len iov"
    and "int (max_buf - length (q b)) < uio_resid data"
  shows "\<exists>b1 d1 evs ys. write_buf b data = Some (Returns (0, b1, d1, evs))
           \<and> q b1 = q b @ ys \<and> length ys = max_buf - length (q b)
           \<and> length (q b1) = max_buf
           \<and> uio_resid d1 = uio_resid data - int (max_buf - length (q b))"
proof -
  from write_loop_returns [OF assms(3,4), of b] obtain b1 d1 ys where
    res: "write_loop b data = Some (Returns (b1, d1))" "receiver b1 = receiver b"
      "q b1 = q b @ ys" "int (length ys) = uio_resid data - uio_resid d1"
      "length (q b) \<le> max_buf \<longrightarrow> length (q b1) \<le> max_buf"
      "uio_resid d1 = 0 \<or> receiver b1 = None \<or> \<not> length (q b1) < max_buf"
    by blast
  have le: "length (q b1) \<le> max_buf"
    using res(5) assms(2) by simp
  then have "length ys \<le> max_buf - length (q b)"
    by (simp add: res(3))
  with res(4) assms(5) have "uio_resid d1 \<noteq> 0" by linarith
  with res(6,2) assms(1) le have full: "length (q b1) = max_buf" by auto
  then have ys: "length ys = max_buf - length (q b)"
    by (simp add: res(3))
  have nz: "uio_resid data \<noteq> 0" using assms(5) by linarith
  from write_transfer [OF nz assms(1,2) res(1)] res(3,4) full ys show ?thesis
    by auto
qed

lemma after_call_capacity:
  assumes "length (q b) \<le> max_buf" and "after_call b c = Some b'"
  shows "length (q b') \<le> max_buf"
proof (cases c)
  case (Read data)
  show ?thesis
  proof (cases rule: read_cases [where b = b and data = data])
    case (transfer b1 d1)
    from read_loop_result [OF transfer(3)] obtain xs where "q b = xs @ q b1" by auto
    then have "length (q b1) \<le> length (q b)" by (metis length_append le_add2)
    with assms Read transfer(4) show ?thesis by (simp add: after_call_def)
  qed (use assms Read in \<open>auto simp: after_call_def\<close>)
next
  case (Write data)
  show ?thesis
  proof (cases rule: write_buf_cases [where b = b and data = data])
    case (transfer b1 d1)
    from write_loop_result [OF transfer(4)] assms(1)
    have "length (q b1) \<le> max_buf" by auto
    with assms Write transfer(5) show ?thesis by (simp add: after_call_def)
  qed (use assms Write in \<open>auto simp: after_call_def\<close>)
next
  case Detach_sender
  with assms show ?thesis by (auto simp: after_call_def detach_sender_simps)
next
  case Detach_receiver
  with assms show ?thesis by (auto simp: after_call_def detach_receiver_simps)
next
  case (Attach_sender f)
  with assms show ?thesis
    by (auto simp: after_call_def attach_sender_def split: if_splits)
next
  case (Attach_receiver f)
  with assms show ?thesis
    by (auto simp: after_call_def attach_receiver_def split: if_splits)
qed

lemma run_capacity:
  "length (q b) \<le> max_buf \<Longrightarrow> run b cs = Some b' \<Longrightarrow> length (q b') \<le> max_buf"
proof (induction cs arbitrary: b)
  case Nil
  then show ?case by simp
next
  case (Cons c cs)
  from Cons.prems(2) obtain b1 where s: "after_call b c = Some b1" and r: "run b1 cs = Some b'"
    by (auto split: option.splits)
  from after_call_capacity [OF Cons.prems(1) s] r show ?case
    by (rule Cons.IH)
qed

lemma pass_capacity:
  "length (q b) \<le> max_buf \<Longrightarrow> length (q (fst (write_pass b data iov))) \<le> max_buf"
  "length (q b) \<le> max_buf \<Longrightarrow> length (q (fst (read_pass b data iov rest))) \<le> max_buf"
  by (simp_all add: write_pass_simps read_pass_simps iov_len_def)

subsection \<open>First in, first out, one segment per call\<close>

lemma one_segment_uioD:
  "one_segment_uio data \<Longrightarrow> \<exists>iov. uio_iov data = [iov] \<and> uio_resid data = int (iov_len iov)"
  by (auto simp: one_segment_uio_def split: list.splits)

lemma read_one_segment_fifo:
  assumes "one_segment_uio data" and "after_call b (Read data) = Some b'"
  shows "q b = delivered b (Read data) @ q b'"
proof -
  from one_segment_uioD [OF assms(1)] obtain iov where
    iov: "uio_iov data = [iov]" "uio_resid data = int (iov_len iov)"
    by blast
  show ?thesis
  proof (cases "uio_resid data \<noteq> 0 \<and> q b \<noteq> []")
    case True
    define n where "n = min (length (q b)) (iov_len iov)"
    have "read b data = Some (Returns (0, b\<lparr>q := drop n (q b)\<rparr>,
           data\<lparr>uio_iov := iov\<lparr>iov_base := take n (q b) @ drop n (iov_base iov)\<rparr> # [],
                uio_resid := uio_resid data - int n\<rparr>,
           (if write_events_unlocked (b\<lparr>q := drop n (q b)\<rparr>) \<noteq> 0
            then [Poll_wake (sender b) POLLOUT] else []) @ [Wake_all May_write]))"
      using True iov n_def by (intro read_one_pass) auto
    with assms(2) have "q b' = drop n (q b)"
      and "delivered b (Read data) = take n (take n (q b) @ drop n (iov_base iov))"
      by (auto simp: after_call_def delivered_def uio_bytes_def)
    moreover have "n \<le> length (q b)" by (simp add: n_def)
    ultimately show ?thesis by simp
  next
    case False
    then show ?thesis
      using assms(2)
      by (cases rule: read_cases [where b = b and data = data])
        (auto simp: after_call_def delivered_def)
  qed
qed

lemma write_one_segment_fifo:
  assumes "one_segment_uio data" and "after_call b (Write data) = Some b'"
  shows "q b' = q b @ written b (Write data)"
proof -
  from one_segment_uioD [OF assms(1)] obtain iov where
    iov: "uio_iov data = [iov]" "uio_resid data = int (iov_len iov)"
    by blast
  show ?thesis
  proof (cases "uio_resid data \<noteq> 0 \<and> receiver b \<noteq> None \<and> length (q b) < max_buf")
    case True
    define n where "n = min (max_buf - length (q b)) (iov_len iov)"
    have "write_buf b data = Some (Returns (0, b\<lparr>q := q b @ take n (iov_base iov)\<rparr>,
           data\<lparr>uio_resid := uio_resid data - int n\<rparr>,
           (if read_events_unlocked (b\<lparr>q := q b @ take n (iov_base iov)\<rparr>) \<noteq> 0
            then [Poll_wake (receiver b) POLLIN] else []) @ [Wake_all May_read]))"
      using True iov n_def by (intro write_one_pass) auto
    with assms(2) iov(1) show ?thesis
      by (auto simp: after_call_def written_def uio_bytes_def)
  next
    case False
    then show ?thesis
      using assms(2)
      by (cases rule: write_buf_cases [where b = b and data = data])
        (auto simp: after_call_def written_def)
  qed
qed

lemma one_segment_call_fifo:
  assumes "one_segment c" and "after_call b c = Some b'"
  shows "q b @ written b c = delivered b c @ q b'"
proof (cases c)
  case (Read data)
  with assms read_one_segment_fifo [of data b b'] show ?thesis
    by (simp add: written_def)
next
  case (Write data)
  with assms write_one_segment_fifo [of data b b'] show ?thesis
    by (simp add: delivered_def)
next
  case Detach_sender
  with assms show ?thesis
    by (auto simp: after_call_def written_def delivered_def detach_sender_simps)
next
  case Detach_receiver
  with assms show ?thesis
    by (auto simp: after_call_def written_def delivered_def detach_receiver_simps)
next
  case (Attach_sender f)
  with assms show ?thesis
    by (auto simp: after_call_def written_def delivered_def attach_sender_def split: if_splits)
next
  case (Attach_receiver f)
  with assms show ?thesis
    by (auto simp: after_call_def written_def delivered_def attach_receiver_def split: if_splits)
qed

text \<open>
  With one segment per call, whatever the sizes of the requests: the bytes in the queue at
  the start, followed by the bytes written, are the bytes delivered followed by the bytes
  still in the queue.
\<close>

lemma one_segment_fifo:
  "list_all one_segment cs \<Longrightarrow> trace b cs = Some (w, d, b') \<Longrightarrow> q b @ w = d @ q b'"
proof (induction cs arbitrary: b w d)
  case Nil
  then show ?case by simp
next
  case (Cons c cs)
  from Cons.prems(2) obtain b1 w1 d1 where
    s: "after_call b c = Some b1" and t: "trace b1 cs = Some (w1, d1, b')"
    and w: "w = written b c @ w1" and d: "d = delivered b c @ d1"
    by (auto split: option.splits)
  from Cons.prems(1) have "one_segment c" "list_all one_segment cs" by simp_all
  from one_segment_call_fifo [OF this(1) s] Cons.IH [OF this(2) t] w d
  show ?case by (metis append.assoc)
qed

section \<open>The claims\<close>

text \<open>
  C1. The bytes read from a buffer should be the bytes written to it, in the order
  written, however the calls are cut into requests and segments. The code does not do
  this for a call with two segments. The copy loops take the segment array once
  (\<^verbatim>\<open>auto iov = data->uio_iov\<close>) and never move on from its first segment, nor within
  it. A read of four bytes into two segments of two bytes, from a queue holding
  \<open>''abcd''\<close>, writes \<open>''ab''\<close> and then \<open>''cd''\<close> over it into the first segment, leaves
  the second segment as it was and reports all four bytes transferred: the reader sees
  \<open>''cd''\<close> followed by whatever its second segment held, not \<open>''abcd''\<close>. A write of the
  segments \<open>''ab''\<close> and \<open>''cd''\<close> into an empty queue queues \<open>''abab''\<close> and reports four
  bytes written: the bytes \<open>''cd''\<close> are never delivered. Seen from the two callers, the
  writer has written \<open>''abcd''\<close> and the reader, asking for four bytes in one segment,
  receives \<open>''abab''\<close>. (With one segment per call the order is kept, whatever the
  sizes of the requests: lemma \<open>one_segment_fifo\<close>.)
\<close>

theorem multi_segment_order_lost:
  "read \<lparr>q = ''abcd'', receiver = Some 3, sender = Some 2\<rparr>
     \<lparr>uio_iov = [\<lparr>iov_base = ''..''\<rparr>, \<lparr>iov_base = ''..''\<rparr>], uio_resid = 4\<rparr>
    = Some (Returns (0, \<lparr>q = [], receiver = Some 3, sender = Some 2\<rparr>,
        \<lparr>uio_iov = [\<lparr>iov_base = ''cd''\<rparr>, \<lparr>iov_base = ''..''\<rparr>], uio_resid = 0\<rparr>,
        [Poll_wake (Some 2) POLLOUT, Wake_all May_write]))
   \<and> write_buf \<lparr>q = [], receiver = Some 3, sender = Some 2\<rparr>
     \<lparr>uio_iov = [\<lparr>iov_base = ''ab''\<rparr>, \<lparr>iov_base = ''cd''\<rparr>], uio_resid = 4\<rparr>
    = Some (Returns (0, \<lparr>q = ''abab'', receiver = Some 3, sender = Some 2\<rparr>,
        \<lparr>uio_iov = [\<lparr>iov_base = ''ab''\<rparr>, \<lparr>iov_base = ''cd''\<rparr>], uio_resid = 0\<rparr>,
        [Poll_wake (Some 3) POLLIN, Wake_all May_read]))
   \<and> trace \<lparr>q = [], receiver = Some 3, sender = Some 2\<rparr>
       [Write \<lparr>uio_iov = [\<lparr>iov_base = ''ab''\<rparr>, \<lparr>iov_base = ''cd''\<rparr>], uio_resid = 4\<rparr>,
        Read \<lparr>uio_iov = [\<lparr>iov_base = ''....''\<rparr>], uio_resid = 4\<rparr>]
    = Some (''abcd'', ''abab'', \<lparr>q = [], receiver = Some 3, sender = Some 2\<rparr>)"
proof -
  let ?b = "\<lparr>q = ''abcd'', receiver = Some 3, sender = Some 2\<rparr>"
  let ?d = "\<lparr>uio_iov = [\<lparr>iov_base = ''..''\<rparr>, \<lparr>iov_base = ''..''\<rparr>], uio_resid = 4\<rparr>"
  let ?b1 = "\<lparr>q = ''cd'', receiver = Some 3, sender = Some 2\<rparr>"
  let ?d1 = "\<lparr>uio_iov = [\<lparr>iov_base = ''ab''\<rparr>, \<lparr>iov_base = ''..''\<rparr>], uio_resid = 2\<rparr>"
  let ?b2 = "\<lparr>q = [], receiver = Some 3, sender = Some 2\<rparr>"
  let ?d2 = "\<lparr>uio_iov = [\<lparr>iov_base = ''cd''\<rparr>, \<lparr>iov_base = ''..''\<rparr>], uio_resid = 0\<rparr>"
  have "read_loop ?b ?d = read_loop ?b1 ?d1"
    by (subst read_loop_enter [where iov = "\<lparr>iov_base = ''..''\<rparr>"
          and rest = "[\<lparr>iov_base = ''..''\<rparr>]"])
      (simp_all add: read_pass_def iov_len_def)
  also have "\<dots> = read_loop ?b2 ?d2"
    by (subst read_loop_enter [where iov = "\<lparr>iov_base = ''ab''\<rparr>"
          and rest = "[\<lparr>iov_base = ''..''\<rparr>]"])
      (simp_all add: read_pass_def iov_len_def)
  also have "\<dots> = Some (Returns (?b2, ?d2))"
    by (simp add: read_loop_exit)
  finally have rl: "read_loop ?b ?d = Some (Returns (?b2, ?d2))" .
  have r: "read ?b ?d = Some (Returns (0, ?b2, ?d2, [Poll_wake (Some 2) POLLOUT, Wake_all May_write]))"
    by (subst read_transfer [OF _ _ rl]) (simp_all add: write_events_zero max_buf_def)
  let ?w = "\<lparr>uio_iov = [\<lparr>iov_base = ''ab''\<rparr>, \<lparr>iov_base = ''cd''\<rparr>], uio_resid = 4\<rparr>"
  let ?w1 = "\<lparr>uio_iov = [\<lparr>iov_base = ''ab''\<rparr>, \<lparr>iov_base = ''cd''\<rparr>], uio_resid = 2\<rparr>"
  let ?w2 = "\<lparr>uio_iov = [\<lparr>iov_base = ''ab''\<rparr>, \<lparr>iov_base = ''cd''\<rparr>], uio_resid = 0\<rparr>"
  let ?c1 = "\<lparr>q = ''ab'', receiver = Some 3, sender = Some 2\<rparr>"
  let ?c2 = "\<lparr>q = ''abab'', receiver = Some 3, sender = Some 2\<rparr>"
  have "write_loop ?b2 ?w = write_loop ?c1 ?w1"
    by (subst write_loop_enter [where iov = "\<lparr>iov_base = ''ab''\<rparr>"
          and rest = "[\<lparr>iov_base = ''cd''\<rparr>]"])
      (simp_all add: write_pass_def iov_len_def max_buf_def)
  also have "\<dots> = write_loop ?c2 ?w2"
    by (subst write_loop_enter [where iov = "\<lparr>iov_base = ''ab''\<rparr>"
          and rest = "[\<lparr>iov_base = ''cd''\<rparr>]"])
      (simp_all add: write_pass_def iov_len_def max_buf_def)
  also have "\<dots> = Some (Returns (?c2, ?w2))"
    by (simp add: write_loop_exit)
  finally have wl: "write_loop ?b2 ?w = Some (Returns (?c2, ?w2))" .
  have w: "write_buf ?b2 ?w
      = Some (Returns (0, ?c2, ?w2, [Poll_wake (Some 3) POLLIN, Wake_all May_read]))"
    by (subst write_transfer [OF _ _ _ wl]) (simp_all add: read_events_zero max_buf_def)
  have r2: "read ?c2 \<lparr>uio_iov = [\<lparr>iov_base = ''....''\<rparr>], uio_resid = 4\<rparr>
      = Some (Returns (0, ?b2, \<lparr>uio_iov = [\<lparr>iov_base = ''abab''\<rparr>], uio_resid = 0\<rparr>,
          [Poll_wake (Some 2) POLLOUT, Wake_all May_write]))"
    by (subst read_one_pass [where iov = "\<lparr>iov_base = ''....''\<rparr>" and rest = "[]" and n = 4])
      (simp_all add: iov_len_def max_buf_def write_events_zero)
  have t: "trace ?b2 [Write ?w, Read \<lparr>uio_iov = [\<lparr>iov_base = ''....''\<rparr>], uio_resid = 4\<rparr>]
      = Some (''abcd'', ''abab'', ?b2)"
    by (simp add: after_call_def written_def delivered_def uio_bytes_def w r2)
  from r w t show ?thesis by simp
qed

text \<open>
  C2. The capacity is 8192. A new buffer is within it, every call that returns or waits
  leaves a buffer within it, and so does every single pass of the two copy loops, hence
  every sequence of calls. A write that finds a receiver attached and room in the queue,
  whose first segment is not empty and whose request is larger than the room left,
  returns 0 having appended exactly as many bytes as there was room for: the queue is
  then exactly full and \<open>uio_resid\<close> has dropped by that number. A write of one byte or
  more that finds the queue full, with a receiver attached, appends nothing and waits.
  (When the first segment is empty and more segments follow, the copy loop never leaves
  that segment: lemma \<open>write_loop_spins\<close>.)
\<close>

theorem capacity_invariant:
  "max_buf = 8192
   \<and> length (q new_af_local_buffer) \<le> max_buf
   \<and> (length (q b) \<le> max_buf \<and> run b cs = Some b' \<longrightarrow> length (q b') \<le> max_buf)
   \<and> (length (q b) \<le> max_buf \<longrightarrow>
        length (q (fst (write_pass b data iov))) \<le> max_buf
        \<and> length (q (fst (read_pass b data iov rest))) \<le> max_buf)
   \<and> (receiver b \<noteq> None \<and> length (q b) < max_buf
        \<and> uio_iov data = iov # rest \<and> 0 < iov_len iov
        \<and> int (max_buf - length (q b)) < uio_resid data \<longrightarrow>
        (\<exists>b1 d1 evs ys. write_buf b data = Some (Returns (0, b1, d1, evs))
           \<and> q b1 = q b @ ys \<and> length ys = max_buf - length (q b)
           \<and> length (q b1) = max_buf
           \<and> uio_resid d1 = uio_resid data - int (max_buf - length (q b))))
   \<and> (receiver b \<noteq> None \<and> length (q b) = max_buf \<and> uio_resid data \<noteq> 0 \<longrightarrow>
        write_buf b data = Some Blocks)"
proof -
  have "max_buf = 8192" by (simp add: max_buf_def)
  moreover have "length (q new_af_local_buffer) \<le> max_buf"
    by (simp add: new_af_local_buffer_def)
  moreover have "length (q b) \<le> max_buf \<and> run b cs = Some b' \<longrightarrow> length (q b') \<le> max_buf"
    using run_capacity by blast
  moreover have "length (q b) \<le> max_buf \<longrightarrow>
        length (q (fst (write_pass b data iov))) \<le> max_buf
        \<and> length (q (fst (read_pass b data iov rest))) \<le> max_buf"
    using pass_capacity by blast
  moreover have "receiver b \<noteq> None \<and> length (q b) < max_buf
        \<and> uio_iov data = iov # rest \<and> 0 < iov_len iov
        \<and> int (max_buf - length (q b)) < uio_resid data \<longrightarrow>
        (\<exists>b1 d1 evs ys. write_buf b data = Some (Returns (0, b1, d1, evs))
           \<and> q b1 = q b @ ys \<and> length ys = max_buf - length (q b)
           \<and> length (q b1) = max_buf
           \<and> uio_resid d1 = uio_resid data - int (max_buf - length (q b)))"
    using write_buf_truncates [of b data iov rest] by blast
  moreover have "receiver b \<noteq> None \<and> length (q b) = max_buf \<and> uio_resid data \<noteq> 0 \<longrightarrow>
        write_buf b data = Some Blocks"
    by (simp add: write_blocks)
  ultimately show ?thesis by blast
qed

theorem capacity_invariant_witness:
  "length (q new_af_local_buffer) \<le> max_buf
   \<and> run new_af_local_buffer
        [Attach_sender 2, Attach_receiver 3,
         Write \<lparr>uio_iov = [\<lparr>iov_base = ''hello''\<rparr>], uio_resid = 5\<rparr>,
         Read \<lparr>uio_iov = [\<lparr>iov_base = ''...''\<rparr>], uio_resid = 3\<rparr>,
         Detach_sender]
       = Some \<lparr>q = ''lo'', receiver = Some 3, sender = None\<rparr>
   \<and> length (q \<lparr>q = ''lo'', receiver = Some 3, sender = None\<rparr>) \<le> max_buf
   \<and> length (q \<lparr>q = replicate 8190 CHR ''a'', receiver = Some 3, sender = Some 2\<rparr>) < max_buf
   \<and> 0 < iov_len \<lparr>iov_base = ''wxyz''\<rparr>
   \<and> int (max_buf - length (q \<lparr>q = replicate 8190 CHR ''a'', receiver = Some 3, sender = Some 2\<rparr>))
       < uio_resid \<lparr>uio_iov = [\<lparr>iov_base = ''wxyz''\<rparr>], uio_resid = 4\<rparr>
   \<and> (\<exists>b1 d1 evs ys.
        write_buf \<lparr>q = replicate 8190 CHR ''a'', receiver = Some 3, sender = Some 2\<rparr>
          \<lparr>uio_iov = [\<lparr>iov_base = ''wxyz''\<rparr>], uio_resid = 4\<rparr> = Some (Returns (0, b1, d1, evs))
        \<and> q b1 = replicate 8190 CHR ''a'' @ ys \<and> length ys = 2 \<and> length (q b1) = 8192
        \<and> uio_resid d1 = 2)
   \<and> write_buf \<lparr>q = replicate 8192 CHR ''a'', receiver = Some 3, sender = Some 2\<rparr>
        \<lparr>uio_iov = [\<lparr>iov_base = ''wxyz''\<rparr>], uio_resid = 4\<rparr> = Some Blocks"
proof -
  let ?data = "\<lparr>uio_iov = [\<lparr>iov_base = ''wxyz''\<rparr>], uio_resid = 4\<rparr>"
  let ?cs = "[Attach_sender 2, Attach_receiver 3,
         Write \<lparr>uio_iov = [\<lparr>iov_base = ''hello''\<rparr>], uio_resid = 5\<rparr>,
         Read \<lparr>uio_iov = [\<lparr>iov_base = ''...''\<rparr>], uio_resid = 3\<rparr>,
         Detach_sender]"
  have w: "write_buf \<lparr>q = [], receiver = Some 3, sender = Some 2\<rparr>
             \<lparr>uio_iov = [\<lparr>iov_base = ''hello''\<rparr>], uio_resid = 5\<rparr>
           = Some (Returns (0, \<lparr>q = ''hello'', receiver = Some 3, sender = Some 2\<rparr>,
               \<lparr>uio_iov = [\<lparr>iov_base = ''hello''\<rparr>], uio_resid = 0\<rparr>,
               [Poll_wake (Some 3) POLLIN, Wake_all May_read]))"
    by (subst write_one_pass [where iov = "\<lparr>iov_base = ''hello''\<rparr>" and rest = "[]" and n = 5])
      (simp_all add: iov_len_def max_buf_def read_events_zero)
  have r: "read \<lparr>q = ''hello'', receiver = Some 3, sender = Some 2\<rparr>
             \<lparr>uio_iov = [\<lparr>iov_base = ''...''\<rparr>], uio_resid = 3\<rparr>
           = Some (Returns (0, \<lparr>q = ''lo'', receiver = Some 3, sender = Some 2\<rparr>,
               \<lparr>uio_iov = [\<lparr>iov_base = ''hel''\<rparr>], uio_resid = 0\<rparr>,
               [Poll_wake (Some 2) POLLOUT, Wake_all May_write]))"
    by (subst read_one_pass [where iov = "\<lparr>iov_base = ''...''\<rparr>" and rest = "[]" and n = 3])
      (simp_all add: iov_len_def max_buf_def write_events_zero)
  have run: "run new_af_local_buffer ?cs = Some \<lparr>q = ''lo'', receiver = Some 3, sender = None\<rparr>"
    by (simp add: new_af_local_buffer_def after_call_def attach_sender_def attach_receiver_def
        detach_sender_def w r)
  from capacity_invariant [where b = new_af_local_buffer and cs = ?cs
      and b' = "\<lparr>q = ''lo'', receiver = Some 3, sender = None\<rparr>"] run
  have a: "length (q new_af_local_buffer) \<le> max_buf
    \<and> length (q \<lparr>q = ''lo'', receiver = Some 3, sender = None\<rparr>) \<le> max_buf"
    by blast
  from capacity_invariant [where b = "\<lparr>q = replicate 8190 CHR ''a'', receiver = Some 3, sender = Some 2\<rparr>"
      and data = ?data and iov = "\<lparr>iov_base = ''wxyz''\<rparr>" and rest = "[]"]
  have t: "\<exists>b1 d1 evs ys.
        write_buf \<lparr>q = replicate 8190 CHR ''a'', receiver = Some 3, sender = Some 2\<rparr> ?data
          = Some (Returns (0, b1, d1, evs))
        \<and> q b1 = replicate 8190 CHR ''a'' @ ys \<and> length ys = 2 \<and> length (q b1) = 8192
        \<and> uio_resid d1 = 2"
    by (simp add: iov_len_def max_buf_def)
  from capacity_invariant [where b = "\<lparr>q = replicate 8192 CHR ''a'', receiver = Some 3, sender = Some 2\<rparr>"
      and data = ?data]
  have bl: "write_buf \<lparr>q = replicate 8192 CHR ''a'', receiver = Some 3, sender = Some 2\<rparr> ?data
      = Some Blocks"
    by (simp add: max_buf_def)
  from a run t bl show ?thesis
    by (simp add: iov_len_def max_buf_def)
qed

text \<open>
  C3. In every state of the buffer the read mask has \<open>POLLIN\<close> exactly when the queue is
  not empty and \<open>POLLRDHUP\<close> exactly when no sender is attached, and no other bit; the
  write mask has \<open>POLLOUT\<close> exactly when a receiver is attached and the queue holds fewer
  than 8192 bytes, \<open>POLLHUP\<close> exactly when no receiver is attached, and no other bit.
  The locked queries return the same masks.
\<close>

theorem readiness_masks:
  "(read_events_unlocked b AND POLLIN \<noteq> 0 \<longleftrightarrow> q b \<noteq> [])
   \<and> (read_events_unlocked b AND POLLRDHUP \<noteq> 0 \<longleftrightarrow> sender b = None)
   \<and> read_events_unlocked b AND NOT (POLLIN OR POLLRDHUP) = 0
   \<and> (write_events_unlocked b AND POLLOUT \<noteq> 0 \<longleftrightarrow> receiver b \<noteq> None \<and> length (q b) < 8192)
   \<and> (write_events_unlocked b AND POLLHUP \<noteq> 0 \<longleftrightarrow> receiver b = None)
   \<and> write_events_unlocked b AND NOT (POLLOUT OR POLLHUP) = 0
   \<and> read_events b = read_events_unlocked b
   \<and> write_events b = write_events_unlocked b"
proof -
  have "read_events_unlocked b AND NOT (POLLIN OR POLLRDHUP) = 0"
    by (simp add: read_events_unlocked_def POLLIN_def POLLRDHUP_def)
  moreover have "write_events_unlocked b AND NOT (POLLOUT OR POLLHUP) = 0"
    by (simp add: write_events_unlocked_def POLLOUT_def POLLHUP_def)
  ultimately show ?thesis
    by (simp add: read_events_POLLIN read_events_POLLRDHUP write_events_POLLOUT
        write_events_POLLHUP poll_bits_nonzero read_events_def write_events_def max_buf_def)
qed

text \<open>
  C4. With no receiver attached, a write of one byte or more returns \<open>EPIPE\<close> and writes
  nothing: queue and descriptor are as before. \<open>detach_receiver\<close> leaves no receiver
  attached and the queue as it was. A writer that waits for write-readiness (its call
  \<open>Blocks\<close>) is woken by the broadcast on \<open>May_write\<close> that \<open>detach_receiver\<close> sends,
  and its call, resumed on the state the detach left, returns \<open>EPIPE\<close>. \<open>EPIPE\<close> is the
  only non-zero value a write returns, it is returned only when no receiver is attached,
  no assertion fails on the way, and the buffer it leaves is the buffer it found.
\<close>

theorem write_broken_pipe:
  "(receiver b = None \<and> uio_resid data \<noteq> 0 \<longrightarrow>
      write_buf b data = Some (Returns (EPIPE, b, data, [Wake_all May_read])))
   \<and> receiver (fst (detach_receiver b)) = None
   \<and> q (fst (detach_receiver b)) = q b
   \<and> (write_buf b data = Some Blocks \<longrightarrow>
        Wake_all May_write \<in> set (snd (detach_receiver b))
        \<and> write_buf (fst (detach_receiver b)) data
            = Some (Returns (EPIPE, fst (detach_receiver b), data, [Wake_all May_read])))
   \<and> (write_buf b data = Some (Returns (r, b', data', evs)) \<longrightarrow>
        (r = 0 \<or> r = EPIPE) \<and> (r \<noteq> 0 \<longrightarrow> receiver b = None \<and> b' = b \<and> data' = data))
   \<and> write_buf b data \<noteq> Some Assert_failure
   \<and> EPIPE \<noteq> 0"
proof -
  have hang: "receiver b = None \<and> uio_resid data \<noteq> 0 \<longrightarrow>
      write_buf b data = Some (Returns (EPIPE, b, data, [Wake_all May_read]))"
    by (simp add: write_hangup)
  have blocked: "write_buf b data = Some Blocks \<longrightarrow>
        Wake_all May_write \<in> set (snd (detach_receiver b))
        \<and> write_buf (fst (detach_receiver b)) data
            = Some (Returns (EPIPE, fst (detach_receiver b), data, [Wake_all May_read]))"
  proof
    assume "write_buf b data = Some Blocks"
    then have c: "uio_resid data \<noteq> 0" "receiver b \<noteq> None"
      by (simp_all add: write_buf_Blocks_iff)
    from c(2) have "Wake_all May_write \<in> set (snd (detach_receiver b))"
      by (simp add: detach_receiver_def)
    moreover from c(1) have "write_buf (fst (detach_receiver b)) data
        = Some (Returns (EPIPE, fst (detach_receiver b), data, [Wake_all May_read]))"
      by (intro write_hangup) (simp_all add: detach_receiver_simps)
    ultimately show "Wake_all May_write \<in> set (snd (detach_receiver b))
        \<and> write_buf (fst (detach_receiver b)) data
            = Some (Returns (EPIPE, fst (detach_receiver b), data, [Wake_all May_read]))" ..
  qed
  have sole: "write_buf b data = Some (Returns (r, b', data', evs)) \<longrightarrow>
        (r = 0 \<or> r = EPIPE) \<and> (r \<noteq> 0 \<longrightarrow> receiver b = None \<and> b' = b \<and> data' = data)"
    using write_result [of b data r b' data' evs] by blast
  have "EPIPE \<noteq> 0" by (simp add: EPIPE_def)
  with hang blocked sole show ?thesis
    by (simp add: detach_receiver_simps write_buf_no_assert)
qed

theorem write_broken_pipe_witness:
  "receiver \<lparr>q = ''ab'', receiver = None, sender = Some 2\<rparr> = None
   \<and> uio_resid \<lparr>uio_iov = [\<lparr>iov_base = ''xy''\<rparr>], uio_resid = 2\<rparr> \<noteq> 0
   \<and> write_buf \<lparr>q = ''ab'', receiver = None, sender = Some 2\<rparr>
        \<lparr>uio_iov = [\<lparr>iov_base = ''xy''\<rparr>], uio_resid = 2\<rparr>
       = Some (Returns (32, \<lparr>q = ''ab'', receiver = None, sender = Some 2\<rparr>,
           \<lparr>uio_iov = [\<lparr>iov_base = ''xy''\<rparr>], uio_resid = 2\<rparr>, [Wake_all May_read]))
   \<and> write_buf \<lparr>q = replicate 8192 CHR ''a'', receiver = Some 1, sender = Some 2\<rparr>
        \<lparr>uio_iov = [\<lparr>iov_base = ''xy''\<rparr>], uio_resid = 2\<rparr> = Some Blocks
   \<and> detach_receiver \<lparr>q = replicate 8192 CHR ''a'', receiver = Some 1, sender = Some 2\<rparr>
       = (\<lparr>q = replicate 8192 CHR ''a'', receiver = None, sender = Some 2\<rparr>,
          [Poll_wake (Some 2) 16, Wake_all May_write])
   \<and> write_buf \<lparr>q = replicate 8192 CHR ''a'', receiver = None, sender = Some 2\<rparr>
        \<lparr>uio_iov = [\<lparr>iov_base = ''xy''\<rparr>], uio_resid = 2\<rparr>
       = Some (Returns (32, \<lparr>q = replicate 8192 CHR ''a'', receiver = None, sender = Some 2\<rparr>,
           \<lparr>uio_iov = [\<lparr>iov_base = ''xy''\<rparr>], uio_resid = 2\<rparr>, [Wake_all May_read]))"
proof -
  have blocks: "write_buf \<lparr>q = replicate 8192 CHR ''a'', receiver = Some 1, sender = Some 2\<rparr>
        \<lparr>uio_iov = [\<lparr>iov_base = ''xy''\<rparr>], uio_resid = 2\<rparr> = Some Blocks"
    by (simp add: write_buf_def write_events_unlocked_def max_buf_def)
  have detach: "detach_receiver \<lparr>q = replicate 8192 CHR ''a'', receiver = Some 1, sender = Some 2\<rparr>
       = (\<lparr>q = replicate 8192 CHR ''a'', receiver = None, sender = Some 2\<rparr>,
          [Poll_wake (Some 2) 16, Wake_all May_write])"
    by (simp add: detach_receiver_def POLLHUP_def)
  show ?thesis
    using write_broken_pipe [of "\<lparr>q = ''ab'', receiver = None, sender = Some 2\<rparr>"
        "\<lparr>uio_iov = [\<lparr>iov_base = ''xy''\<rparr>], uio_resid = 2\<rparr>"]
      write_broken_pipe [of "\<lparr>q = replicate 8192 CHR ''a'', receiver = Some 1, sender = Some 2\<rparr>"
        "\<lparr>uio_iov = [\<lparr>iov_base = ''xy''\<rparr>], uio_resid = 2\<rparr>"]
      blocks detach
    by (simp add: EPIPE_def)
qed

text \<open>
  C5. With no sender attached and an empty queue, a read of one byte or more returns at
  once with nothing consumed (\<open>uio_resid\<close> as before): end of stream, with return value 0
  as for every read. \<open>detach_sender\<close> leaves no sender attached and the queue as it was,
  and no read attaches one. A reader whose first segment has room for all the buffered
  bytes drains the queue in one call, receives those bytes in order, and its next read
  of one byte or more is the end of stream. (The draining read calls \<^verbatim>\<open>poll_wake\<close> with
  the sender pointer it finds, which is null here.)
\<close>

theorem read_end_of_stream:
  "(sender b = None \<and> q b = [] \<and> uio_resid data \<noteq> 0 \<longrightarrow>
      read b data = Some (Returns (0, b, data, [Wake_all May_write])))
   \<and> sender (fst (detach_sender b)) = None
   \<and> q (fst (detach_sender b)) = q b
   \<and> (read b data = Some (Returns (r, b', data', evs)) \<longrightarrow> r = 0 \<and> sender b' = sender b)
   \<and> (sender b = None \<and> q b \<noteq> [] \<and> uio_resid data \<noteq> 0
        \<and> uio_iov data = iov # rest \<and> length (q b) \<le> iov_len iov \<longrightarrow>
        read b data = Some (Returns (0, b\<lparr>q := []\<rparr>,
            data\<lparr>uio_iov := iov\<lparr>iov_base := q b @ drop (length (q b)) (iov_base iov)\<rparr> # rest,
                 uio_resid := uio_resid data - int (length (q b))\<rparr>,
            [Poll_wake None POLLOUT, Wake_all May_write]))
        \<and> (uio_resid data2 \<noteq> 0 \<longrightarrow>
             read (b\<lparr>q := []\<rparr>) data2 = Some (Returns (0, b\<lparr>q := []\<rparr>, data2, [Wake_all May_write]))))"
proof -
  have eos: "sender b = None \<and> q b = [] \<and> uio_resid data \<noteq> 0 \<longrightarrow>
      read b data = Some (Returns (0, b, data, [Wake_all May_write]))"
    by (simp add: read_hangup)
  have keep: "read b data = Some (Returns (r, b', data', evs)) \<longrightarrow> r = 0 \<and> sender b' = sender b"
    using read_result [of b data r b' data' evs] by blast
  have drain: "sender b = None \<and> q b \<noteq> [] \<and> uio_resid data \<noteq> 0
        \<and> uio_iov data = iov # rest \<and> length (q b) \<le> iov_len iov \<longrightarrow>
        read b data = Some (Returns (0, b\<lparr>q := []\<rparr>,
            data\<lparr>uio_iov := iov\<lparr>iov_base := q b @ drop (length (q b)) (iov_base iov)\<rparr> # rest,
                 uio_resid := uio_resid data - int (length (q b))\<rparr>,
            [Poll_wake None POLLOUT, Wake_all May_write]))
        \<and> (uio_resid data2 \<noteq> 0 \<longrightarrow>
             read (b\<lparr>q := []\<rparr>) data2 = Some (Returns (0, b\<lparr>q := []\<rparr>, data2, [Wake_all May_write])))"
  proof (intro impI conjI)
    assume a: "sender b = None \<and> q b \<noteq> [] \<and> uio_resid data \<noteq> 0
        \<and> uio_iov data = iov # rest \<and> length (q b) \<le> iov_len iov"
    then have "read_loop b data = Some (Returns (read_pass b data iov rest))"
      by (intro read_loop_one_pass) auto
    moreover from a have "read_pass b data iov rest = (b\<lparr>q := []\<rparr>,
            data\<lparr>uio_iov := iov\<lparr>iov_base := q b @ drop (length (q b)) (iov_base iov)\<rparr> # rest,
                 uio_resid := uio_resid data - int (length (q b))\<rparr>)"
      by (simp add: read_pass_def Let_def min_absorb1)
    ultimately have "read b data = Some (Returns (0, b\<lparr>q := []\<rparr>,
            data\<lparr>uio_iov := iov\<lparr>iov_base := q b @ drop (length (q b)) (iov_base iov)\<rparr> # rest,
                 uio_resid := uio_resid data - int (length (q b))\<rparr>,
            (if write_events_unlocked (b\<lparr>q := []\<rparr>) \<noteq> 0
             then [Poll_wake (sender (b\<lparr>q := []\<rparr>)) POLLOUT] else []) @ [Wake_all May_write]))"
      using a by (intro read_transfer) auto
    moreover have "write_events_unlocked (b\<lparr>q := []\<rparr>) \<noteq> 0"
      by (simp add: write_events_zero max_buf_def)
    ultimately show "read b data = Some (Returns (0, b\<lparr>q := []\<rparr>,
            data\<lparr>uio_iov := iov\<lparr>iov_base := q b @ drop (length (q b)) (iov_base iov)\<rparr> # rest,
                 uio_resid := uio_resid data - int (length (q b))\<rparr>,
            [Poll_wake None POLLOUT, Wake_all May_write]))"
      using a by simp
  next
    assume "sender b = None \<and> q b \<noteq> [] \<and> uio_resid data \<noteq> 0
        \<and> uio_iov data = iov # rest \<and> length (q b) \<le> iov_len iov"
      and "uio_resid data2 \<noteq> 0"
    then show "read (b\<lparr>q := []\<rparr>) data2
        = Some (Returns (0, b\<lparr>q := []\<rparr>, data2, [Wake_all May_write]))"
      by (intro read_hangup) auto
  qed
  from eos keep drain show ?thesis
    by (simp add: detach_sender_simps)
qed


theorem read_end_of_stream_witness:
  "sender \<lparr>q = ''hi'', receiver = Some 1, sender = None\<rparr> = None
   \<and> length (q \<lparr>q = ''hi'', receiver = Some 1, sender = None\<rparr>)
       \<le> iov_len \<lparr>iov_base = ''....''\<rparr>
   \<and> read \<lparr>q = ''hi'', receiver = Some 1, sender = None\<rparr>
        \<lparr>uio_iov = [\<lparr>iov_base = ''....''\<rparr>], uio_resid = 4\<rparr>
       = Some (Returns (0, \<lparr>q = [], receiver = Some 1, sender = None\<rparr>,
           \<lparr>uio_iov = [\<lparr>iov_base = ''hi..''\<rparr>], uio_resid = 2\<rparr>,
           [Poll_wake None 4, Wake_all May_write]))
   \<and> read \<lparr>q = [], receiver = Some 1, sender = None\<rparr>
        \<lparr>uio_iov = [\<lparr>iov_base = ''....''\<rparr>], uio_resid = 4\<rparr>
       = Some (Returns (0, \<lparr>q = [], receiver = Some 1, sender = None\<rparr>,
           \<lparr>uio_iov = [\<lparr>iov_base = ''....''\<rparr>], uio_resid = 4\<rparr>, [Wake_all May_write]))"
  using read_end_of_stream [where b = "\<lparr>q = ''hi'', receiver = Some 1, sender = None\<rparr>"
      and data = "\<lparr>uio_iov = [\<lparr>iov_base = ''....''\<rparr>], uio_resid = 4\<rparr>"
      and iov = "\<lparr>iov_base = ''....''\<rparr>" and rest = "[]"
      and ?data2.0 = "\<lparr>uio_iov = [\<lparr>iov_base = ''....''\<rparr>], uio_resid = 4\<rparr>"]
    read_end_of_stream [where b = "\<lparr>q = [], receiver = Some 1, sender = None\<rparr>"
      and data = "\<lparr>uio_iov = [\<lparr>iov_base = ''....''\<rparr>], uio_resid = 4\<rparr>"]
  by (simp add: iov_len_def POLLOUT_def)

text \<open>
  C6. One write of 10000 bytes from one segment into an empty buffer with a receiver
  attached returns 0 with the first 8192 bytes queued in order and 1808 bytes still to
  transfer: the call has not waited. The same holds for the counts whatever the segments
  are, as long as the first is not empty. The rest needs a second call: made while the
  queue is still full it waits; after a reader has taken the 8192 bytes it is accepted
  whole. In general, a write that finds a receiver attached and room in the queue, with a
  non-empty first segment, returns 0 having appended as many bytes as \<open>uio_resid\<close> has
  dropped by, and it stops either with the request served or with the queue exactly full.
\<close>

theorem short_write:
  "(length buf = 10000 \<and> q b = [] \<and> receiver b \<noteq> None \<longrightarrow>
      write_buf b \<lparr>uio_iov = [\<lparr>iov_base = buf\<rparr>], uio_resid = 10000\<rparr>
        = Some (Returns (0, b\<lparr>q := take 8192 buf\<rparr>,
            \<lparr>uio_iov = [\<lparr>iov_base = buf\<rparr>], uio_resid = 1808\<rparr>,
            [Poll_wake (receiver b) POLLIN, Wake_all May_read]))
      \<and> write_buf (b\<lparr>q := take 8192 buf\<rparr>)
           \<lparr>uio_iov = [\<lparr>iov_base = drop 8192 buf\<rparr>], uio_resid = 1808\<rparr> = Some Blocks
      \<and> (length dst = 8192 \<longrightarrow>
           read (b\<lparr>q := take 8192 buf\<rparr>) \<lparr>uio_iov = [\<lparr>iov_base = dst\<rparr>], uio_resid = 8192\<rparr>
             = Some (Returns (0, b\<lparr>q := []\<rparr>,
                 \<lparr>uio_iov = [\<lparr>iov_base = take 8192 buf\<rparr>], uio_resid = 0\<rparr>,
                 [Poll_wake (sender b) POLLOUT, Wake_all May_write])))
      \<and> write_buf (b\<lparr>q := []\<rparr>) \<lparr>uio_iov = [\<lparr>iov_base = drop 8192 buf\<rparr>], uio_resid = 1808\<rparr>
          = Some (Returns (0, b\<lparr>q := drop 8192 buf\<rparr>,
              \<lparr>uio_iov = [\<lparr>iov_base = drop 8192 buf\<rparr>], uio_resid = 0\<rparr>,
              [Poll_wake (receiver b) POLLIN, Wake_all May_read])))
   \<and> (q b = [] \<and> receiver b \<noteq> None \<and> uio_resid data = 10000
        \<and> uio_iov data = iov # rest \<and> 0 < iov_len iov \<longrightarrow>
        (\<exists>b1 d1 evs. write_buf b data = Some (Returns (0, b1, d1, evs))
           \<and> length (q b1) = 8192 \<and> uio_resid d1 = 1808))
   \<and> (receiver b \<noteq> None \<and> length (q b) < max_buf \<and> uio_resid data \<noteq> 0
        \<and> uio_iov data = iov # rest \<and> 0 < iov_len iov \<longrightarrow>
        (\<exists>b1 d1 evs ys. write_buf b data = Some (Returns (0, b1, d1, evs))
           \<and> q b1 = q b @ ys \<and> int (length ys) = uio_resid data - uio_resid d1
           \<and> (uio_resid d1 = 0 \<or> length (q b1) = max_buf)))"
proof -
  have scenario: "write_buf b \<lparr>uio_iov = [\<lparr>iov_base = buf\<rparr>], uio_resid = 10000\<rparr>
        = Some (Returns (0, b\<lparr>q := take 8192 buf\<rparr>,
            \<lparr>uio_iov = [\<lparr>iov_base = buf\<rparr>], uio_resid = 1808\<rparr>,
            [Poll_wake (receiver b) POLLIN, Wake_all May_read]))
      \<and> write_buf (b\<lparr>q := take 8192 buf\<rparr>)
           \<lparr>uio_iov = [\<lparr>iov_base = drop 8192 buf\<rparr>], uio_resid = 1808\<rparr> = Some Blocks
      \<and> (length dst = 8192 \<longrightarrow>
           read (b\<lparr>q := take 8192 buf\<rparr>) \<lparr>uio_iov = [\<lparr>iov_base = dst\<rparr>], uio_resid = 8192\<rparr>
             = Some (Returns (0, b\<lparr>q := []\<rparr>,
                 \<lparr>uio_iov = [\<lparr>iov_base = take 8192 buf\<rparr>], uio_resid = 0\<rparr>,
                 [Poll_wake (sender b) POLLOUT, Wake_all May_write])))
      \<and> write_buf (b\<lparr>q := []\<rparr>) \<lparr>uio_iov = [\<lparr>iov_base = drop 8192 buf\<rparr>], uio_resid = 1808\<rparr>
          = Some (Returns (0, b\<lparr>q := drop 8192 buf\<rparr>,
              \<lparr>uio_iov = [\<lparr>iov_base = drop 8192 buf\<rparr>], uio_resid = 0\<rparr>,
              [Poll_wake (receiver b) POLLIN, Wake_all May_read]))"
    if h: "length buf = 10000" "q b = []" "receiver b \<noteq> None"
  proof (intro conjI impI)
    show "write_buf b \<lparr>uio_iov = [\<lparr>iov_base = buf\<rparr>], uio_resid = 10000\<rparr>
        = Some (Returns (0, b\<lparr>q := take 8192 buf\<rparr>,
            \<lparr>uio_iov = [\<lparr>iov_base = buf\<rparr>], uio_resid = 1808\<rparr>,
            [Poll_wake (receiver b) POLLIN, Wake_all May_read]))"
      using h
      by (subst write_one_pass [where iov = "\<lparr>iov_base = buf\<rparr>" and rest = "[]" and n = 8192])
        (auto simp: iov_len_def max_buf_def read_events_zero)
    show "write_buf (b\<lparr>q := take 8192 buf\<rparr>)
           \<lparr>uio_iov = [\<lparr>iov_base = drop 8192 buf\<rparr>], uio_resid = 1808\<rparr> = Some Blocks"
      using h by (intro write_blocks) (simp_all add: max_buf_def)
    show "read (b\<lparr>q := take 8192 buf\<rparr>) \<lparr>uio_iov = [\<lparr>iov_base = dst\<rparr>], uio_resid = 8192\<rparr>
             = Some (Returns (0, b\<lparr>q := []\<rparr>,
                 \<lparr>uio_iov = [\<lparr>iov_base = take 8192 buf\<rparr>], uio_resid = 0\<rparr>,
                 [Poll_wake (sender b) POLLOUT, Wake_all May_write]))"
      if "length dst = 8192"
      using h that
      by (subst read_one_pass [where iov = "\<lparr>iov_base = dst\<rparr>" and rest = "[]" and n = 8192])
        (auto simp: iov_len_def max_buf_def write_events_zero)
    show "write_buf (b\<lparr>q := []\<rparr>) \<lparr>uio_iov = [\<lparr>iov_base = drop 8192 buf\<rparr>], uio_resid = 1808\<rparr>
          = Some (Returns (0, b\<lparr>q := drop 8192 buf\<rparr>,
              \<lparr>uio_iov = [\<lparr>iov_base = drop 8192 buf\<rparr>], uio_resid = 0\<rparr>,
              [Poll_wake (receiver b) POLLIN, Wake_all May_read]))"
      using h
      by (subst write_one_pass [where iov = "\<lparr>iov_base = drop 8192 buf\<rparr>" and rest = "[]"
            and n = 1808])
        (auto simp: iov_len_def max_buf_def read_events_zero)
  qed
  have counts: "\<exists>b1 d1 evs. write_buf b data = Some (Returns (0, b1, d1, evs))
           \<and> length (q b1) = 8192 \<and> uio_resid d1 = 1808"
    if h: "q b = []" "receiver b \<noteq> None" "uio_resid data = 10000"
      "uio_iov data = iov # rest" "0 < iov_len iov"
  proof -
    from h have "\<exists>b1 d1 evs ys. write_buf b data = Some (Returns (0, b1, d1, evs))
           \<and> q b1 = q b @ ys \<and> length ys = max_buf - length (q b)
           \<and> length (q b1) = max_buf
           \<and> uio_resid d1 = uio_resid data - int (max_buf - length (q b))"
      by (intro write_buf_truncates) (simp_all add: max_buf_def)
    with h show ?thesis by (auto simp: max_buf_def)
  qed
  have general: "\<exists>b1 d1 evs ys. write_buf b data = Some (Returns (0, b1, d1, evs))
           \<and> q b1 = q b @ ys \<and> int (length ys) = uio_resid data - uio_resid d1
           \<and> (uio_resid d1 = 0 \<or> length (q b1) = max_buf)"
    if h: "receiver b \<noteq> None" "length (q b) < max_buf" "uio_resid data \<noteq> 0"
      "uio_iov data = iov # rest" "0 < iov_len iov"
  proof -
    from write_loop_returns [OF h(4,5), of b] obtain b1 d1 ys where
      res: "write_loop b data = Some (Returns (b1, d1))" "receiver b1 = receiver b"
        "q b1 = q b @ ys" "int (length ys) = uio_resid data - uio_resid d1"
        "length (q b) \<le> max_buf \<longrightarrow> length (q b1) \<le> max_buf"
        "uio_resid d1 = 0 \<or> receiver b1 = None \<or> \<not> length (q b1) < max_buf"
      by blast
    have "uio_resid d1 = 0 \<or> length (q b1) = max_buf"
      using res(2,5,6) h(1,2) by auto
    with write_transfer [OF h(3,1,2) res(1)] res(3,4) show ?thesis
      by auto
  qed
  from scenario counts general show ?thesis by blast
qed


theorem short_write_witness:
  "length (replicate 10000 CHR ''z'') = 10000
   \<and> write_buf \<lparr>q = [], receiver = Some 3, sender = Some 2\<rparr>
        \<lparr>uio_iov = [\<lparr>iov_base = replicate 10000 CHR ''z''\<rparr>], uio_resid = 10000\<rparr>
       = Some (Returns (0, \<lparr>q = replicate 8192 CHR ''z'', receiver = Some 3, sender = Some 2\<rparr>,
           \<lparr>uio_iov = [\<lparr>iov_base = replicate 10000 CHR ''z''\<rparr>], uio_resid = 1808\<rparr>,
           [Poll_wake (Some 3) 1, Wake_all May_read]))
   \<and> write_buf \<lparr>q = replicate 8192 CHR ''z'', receiver = Some 3, sender = Some 2\<rparr>
        \<lparr>uio_iov = [\<lparr>iov_base = replicate 1808 CHR ''z''\<rparr>], uio_resid = 1808\<rparr> = Some Blocks
   \<and> read \<lparr>q = replicate 8192 CHR ''z'', receiver = Some 3, sender = Some 2\<rparr>
        \<lparr>uio_iov = [\<lparr>iov_base = replicate 8192 CHR ''.''\<rparr>], uio_resid = 8192\<rparr>
       = Some (Returns (0, \<lparr>q = [], receiver = Some 3, sender = Some 2\<rparr>,
           \<lparr>uio_iov = [\<lparr>iov_base = replicate 8192 CHR ''z''\<rparr>], uio_resid = 0\<rparr>,
           [Poll_wake (Some 2) 4, Wake_all May_write]))
   \<and> write_buf \<lparr>q = [], receiver = Some 3, sender = Some 2\<rparr>
        \<lparr>uio_iov = [\<lparr>iov_base = replicate 1808 CHR ''z''\<rparr>], uio_resid = 1808\<rparr>
       = Some (Returns (0, \<lparr>q = replicate 1808 CHR ''z'', receiver = Some 3, sender = Some 2\<rparr>,
           \<lparr>uio_iov = [\<lparr>iov_base = replicate 1808 CHR ''z''\<rparr>], uio_resid = 0\<rparr>,
           [Poll_wake (Some 3) 1, Wake_all May_read]))
   \<and> (\<exists>b1 d1 evs.
        write_buf \<lparr>q = [], receiver = Some 3, sender = Some 2\<rparr>
          \<lparr>uio_iov = [\<lparr>iov_base = replicate 5000 CHR ''y''\<rparr>,
                      \<lparr>iov_base = replicate 5000 CHR ''z''\<rparr>], uio_resid = 10000\<rparr>
          = Some (Returns (0, b1, d1, evs))
        \<and> length (q b1) = 8192 \<and> uio_resid d1 = 1808)
   \<and> (\<exists>b1 d1 evs ys.
        write_buf \<lparr>q = ''ab'', receiver = Some 3, sender = Some 2\<rparr>
          \<lparr>uio_iov = [\<lparr>iov_base = ''xyz''\<rparr>], uio_resid = 3\<rparr>
          = Some (Returns (0, b1, d1, evs))
        \<and> q b1 = ''ab'' @ ys \<and> int (length ys) = 3 - uio_resid d1
        \<and> (uio_resid d1 = 0 \<or> length (q b1) = 8192))"
proof -
  let ?b = "\<lparr>q = [], receiver = Some 3, sender = Some 2\<rparr>"
  from short_write [where buf = "replicate 10000 CHR ''z''" and b = ?b
      and dst = "replicate 8192 CHR ''.''"
      and data = "\<lparr>uio_iov = [\<lparr>iov_base = replicate 5000 CHR ''y''\<rparr>,
                      \<lparr>iov_base = replicate 5000 CHR ''z''\<rparr>], uio_resid = 10000\<rparr>"
      and iov = "\<lparr>iov_base = replicate 5000 CHR ''y''\<rparr>"
      and rest = "[\<lparr>iov_base = replicate 5000 CHR ''z''\<rparr>]"]
  have a: "write_buf ?b
        \<lparr>uio_iov = [\<lparr>iov_base = replicate 10000 CHR ''z''\<rparr>], uio_resid = 10000\<rparr>
       = Some (Returns (0, \<lparr>q = replicate 8192 CHR ''z'', receiver = Some 3, sender = Some 2\<rparr>,
           \<lparr>uio_iov = [\<lparr>iov_base = replicate 10000 CHR ''z''\<rparr>], uio_resid = 1808\<rparr>,
           [Poll_wake (Some 3) 1, Wake_all May_read]))"
    and b: "write_buf \<lparr>q = replicate 8192 CHR ''z'', receiver = Some 3, sender = Some 2\<rparr>
        \<lparr>uio_iov = [\<lparr>iov_base = replicate 1808 CHR ''z''\<rparr>], uio_resid = 1808\<rparr> = Some Blocks"
    and c: "read \<lparr>q = replicate 8192 CHR ''z'', receiver = Some 3, sender = Some 2\<rparr>
        \<lparr>uio_iov = [\<lparr>iov_base = replicate 8192 CHR ''.''\<rparr>], uio_resid = 8192\<rparr>
       = Some (Returns (0, ?b,
           \<lparr>uio_iov = [\<lparr>iov_base = replicate 8192 CHR ''z''\<rparr>], uio_resid = 0\<rparr>,
           [Poll_wake (Some 2) 4, Wake_all May_write]))"
    and d: "write_buf ?b
        \<lparr>uio_iov = [\<lparr>iov_base = replicate 1808 CHR ''z''\<rparr>], uio_resid = 1808\<rparr>
       = Some (Returns (0, \<lparr>q = replicate 1808 CHR ''z'', receiver = Some 3, sender = Some 2\<rparr>,
           \<lparr>uio_iov = [\<lparr>iov_base = replicate 1808 CHR ''z''\<rparr>], uio_resid = 0\<rparr>,
           [Poll_wake (Some 3) 1, Wake_all May_read]))"
    and e: "\<exists>b1 d1 evs.
        write_buf ?b
          \<lparr>uio_iov = [\<lparr>iov_base = replicate 5000 CHR ''y''\<rparr>,
                      \<lparr>iov_base = replicate 5000 CHR ''z''\<rparr>], uio_resid = 10000\<rparr>
          = Some (Returns (0, b1, d1, evs))
        \<and> length (q b1) = 8192 \<and> uio_resid d1 = 1808"
    by (simp_all add: iov_len_def POLLIN_def POLLOUT_def)
  from short_write [where b = "\<lparr>q = ''ab'', receiver = Some 3, sender = Some 2\<rparr>"
      and data = "\<lparr>uio_iov = [\<lparr>iov_base = ''xyz''\<rparr>], uio_resid = 3\<rparr>"
      and iov = "\<lparr>iov_base = ''xyz''\<rparr>" and rest = "[]"]
  have f: "\<exists>b1 d1 evs ys.
        write_buf \<lparr>q = ''ab'', receiver = Some 3, sender = Some 2\<rparr>
          \<lparr>uio_iov = [\<lparr>iov_base = ''xyz''\<rparr>], uio_resid = 3\<rparr>
          = Some (Returns (0, b1, d1, evs))
        \<and> q b1 = ''ab'' @ ys \<and> int (length ys) = 3 - uio_resid d1
        \<and> (uio_resid d1 = 0 \<or> length (q b1) = 8192)"
    by (simp add: iov_len_def max_buf_def)
  from a b c d e f show ?thesis by simp
qed

text \<open>
  C7, as the code has it. Neither call compares the masks before and after: the test
  before \<^verbatim>\<open>poll_wake\<close> looks at the state the copy loop has left. A read that takes bytes
  from a queue within capacity, with a receiver attached, notifies the sender with
  \<open>POLLOUT\<close> every time, also when the buffer was write-ready before the call; a write
  that appends bytes notifies the receiver with \<open>POLLIN\<close> every time, also when the queue
  was not empty before the call. A call that moves no bytes (zero length, end of stream,
  \<open>EPIPE\<close>) sends nothing to the poll subsystem.
\<close>

theorem wake_after_transfer:
  "(read b data = Some (Returns (r, b', data', evs)) \<and> uio_resid data \<noteq> 0 \<and> q b \<noteq> []
      \<and> receiver b \<noteq> None \<and> length (q b) \<le> max_buf \<longrightarrow>
      evs = [Poll_wake (sender b) POLLOUT, Wake_all May_write])
   \<and> (write_buf b data = Some (Returns (r, b', data', evs)) \<and> uio_resid data \<noteq> 0
      \<and> receiver b \<noteq> None \<longrightarrow>
      evs = [Poll_wake (receiver b) POLLIN, Wake_all May_read])
   \<and> (read b data = Some (Returns (r, b', data', evs)) \<and> (uio_resid data = 0 \<or> q b = []) \<longrightarrow>
      evs = [] \<or> evs = [Wake_all May_write])
   \<and> (write_buf b data = Some (Returns (r, b', data', evs))
      \<and> (uio_resid data = 0 \<or> receiver b = None) \<longrightarrow>
      evs = [] \<or> evs = [Wake_all May_read])"
proof -
  have rd: "evs = [Poll_wake (sender b) POLLOUT, Wake_all May_write]"
    if h: "read b data = Some (Returns (r, b', data', evs))" "uio_resid data \<noteq> 0" "q b \<noteq> []"
      "receiver b \<noteq> None" "length (q b) \<le> max_buf"
  proof (cases rule: read_cases [where b = b and data = data])
    case (transfer b1 d1)
    from read_loop_progress [OF transfer(3,1,2)] h(5) have "length (q b1) < max_buf" by simp
    moreover from read_loop_result [OF transfer(3)]
    have "receiver b1 = receiver b" "sender b1 = sender b" by auto
    ultimately have "write_events_unlocked b1 \<noteq> 0" "sender b1 = sender b"
      using h(4) by (simp_all add: write_events_zero)
    with transfer(4) h(1) show ?thesis by simp
  qed (use h in auto)
  have wr: "evs = [Poll_wake (receiver b) POLLIN, Wake_all May_read]"
    if h: "write_buf b data = Some (Returns (r, b', data', evs))" "uio_resid data \<noteq> 0"
      "receiver b \<noteq> None"
  proof (cases rule: write_buf_cases [where b = b and data = data])
    case (transfer b1 d1)
    from write_loop_progress [OF transfer(4,1,2,3)] have "q b1 \<noteq> []" by auto
    moreover from write_loop_result [OF transfer(4)]
    have "receiver b1 = receiver b" by auto
    ultimately have "read_events_unlocked b1 \<noteq> 0" "receiver b1 = receiver b"
      by (simp_all add: read_events_zero)
    with transfer(5) h(1) show ?thesis by simp
  qed (use h in auto)
  have rd0: "evs = [] \<or> evs = [Wake_all May_write]"
    if h: "read b data = Some (Returns (r, b', data', evs))" "uio_resid data = 0 \<or> q b = []"
    by (cases rule: read_cases [where b = b and data = data]) (use h in auto)
  have wr0: "evs = [] \<or> evs = [Wake_all May_read]"
    if h: "write_buf b data = Some (Returns (r, b', data', evs))"
      "uio_resid data = 0 \<or> receiver b = None"
    by (cases rule: write_buf_cases [where b = b and data = data]) (use h in auto)
  from rd wr rd0 wr0 show ?thesis by blast
qed

text \<open>
  The claim as stated fails: the buffer below is write-ready before the read, and its
  queue is not empty before the write, yet both calls notify.
\<close>

theorem wake_without_transition:
  "write_events_unlocked \<lparr>q = ''ab'', receiver = Some 3, sender = Some 2\<rparr> AND POLLOUT \<noteq> 0
   \<and> read \<lparr>q = ''ab'', receiver = Some 3, sender = Some 2\<rparr>
        \<lparr>uio_iov = [\<lparr>iov_base = ''.''\<rparr>], uio_resid = 1\<rparr>
       = Some (Returns (0, \<lparr>q = ''b'', receiver = Some 3, sender = Some 2\<rparr>,
           \<lparr>uio_iov = [\<lparr>iov_base = ''a''\<rparr>], uio_resid = 0\<rparr>,
           [Poll_wake (Some 2) POLLOUT, Wake_all May_write]))
   \<and> read_events_unlocked \<lparr>q = ''ab'', receiver = Some 3, sender = Some 2\<rparr> AND POLLIN \<noteq> 0
   \<and> write_buf \<lparr>q = ''ab'', receiver = Some 3, sender = Some 2\<rparr>
        \<lparr>uio_iov = [\<lparr>iov_base = ''c''\<rparr>], uio_resid = 1\<rparr>
       = Some (Returns (0, \<lparr>q = ''abc'', receiver = Some 3, sender = Some 2\<rparr>,
           \<lparr>uio_iov = [\<lparr>iov_base = ''c''\<rparr>], uio_resid = 0\<rparr>,
           [Poll_wake (Some 3) POLLIN, Wake_all May_read]))"
proof -
  have "read \<lparr>q = ''ab'', receiver = Some 3, sender = Some 2\<rparr>
        \<lparr>uio_iov = [\<lparr>iov_base = ''.''\<rparr>], uio_resid = 1\<rparr>
       = Some (Returns (0, \<lparr>q = ''b'', receiver = Some 3, sender = Some 2\<rparr>,
           \<lparr>uio_iov = [\<lparr>iov_base = ''a''\<rparr>], uio_resid = 0\<rparr>,
           [Poll_wake (Some 2) POLLOUT, Wake_all May_write]))"
    by (subst read_one_pass [where iov = "\<lparr>iov_base = ''.''\<rparr>" and rest = "[]" and n = 1])
      (simp_all add: iov_len_def max_buf_def write_events_zero)
  moreover have "write_buf \<lparr>q = ''ab'', receiver = Some 3, sender = Some 2\<rparr>
        \<lparr>uio_iov = [\<lparr>iov_base = ''c''\<rparr>], uio_resid = 1\<rparr>
       = Some (Returns (0, \<lparr>q = ''abc'', receiver = Some 3, sender = Some 2\<rparr>,
           \<lparr>uio_iov = [\<lparr>iov_base = ''c''\<rparr>], uio_resid = 0\<rparr>,
           [Poll_wake (Some 3) POLLIN, Wake_all May_read]))"
    by (subst write_one_pass [where iov = "\<lparr>iov_base = ''c''\<rparr>" and rest = "[]" and n = 1])
      (simp_all add: iov_len_def max_buf_def read_events_zero)
  ultimately show ?thesis
    by (simp add: write_events_POLLOUT read_events_POLLIN poll_bits_nonzero max_buf_def)
qed

theorem wake_after_transfer_witness:
  "read \<lparr>q = ''ab'', receiver = Some 3, sender = Some 2\<rparr>
        \<lparr>uio_iov = [\<lparr>iov_base = ''.''\<rparr>], uio_resid = 1\<rparr>
       = Some (Returns (0, \<lparr>q = ''b'', receiver = Some 3, sender = Some 2\<rparr>,
           \<lparr>uio_iov = [\<lparr>iov_base = ''a''\<rparr>], uio_resid = 0\<rparr>,
           [Poll_wake (Some 2) POLLOUT, Wake_all May_write]))
   \<and> write_buf \<lparr>q = ''ab'', receiver = Some 3, sender = Some 2\<rparr>
        \<lparr>uio_iov = [\<lparr>iov_base = ''c''\<rparr>], uio_resid = 1\<rparr>
       = Some (Returns (0, \<lparr>q = ''abc'', receiver = Some 3, sender = Some 2\<rparr>,
           \<lparr>uio_iov = [\<lparr>iov_base = ''c''\<rparr>], uio_resid = 0\<rparr>,
           [Poll_wake (Some 3) POLLIN, Wake_all May_read]))
   \<and> read \<lparr>q = [], receiver = Some 3, sender = None\<rparr>
        \<lparr>uio_iov = [\<lparr>iov_base = ''.''\<rparr>], uio_resid = 1\<rparr>
       = Some (Returns (0, \<lparr>q = [], receiver = Some 3, sender = None\<rparr>,
           \<lparr>uio_iov = [\<lparr>iov_base = ''.''\<rparr>], uio_resid = 1\<rparr>, [Wake_all May_write]))
   \<and> write_buf \<lparr>q = [], receiver = None, sender = Some 2\<rparr>
        \<lparr>uio_iov = [\<lparr>iov_base = ''c''\<rparr>], uio_resid = 1\<rparr>
       = Some (Returns (32, \<lparr>q = [], receiver = None, sender = Some 2\<rparr>,
           \<lparr>uio_iov = [\<lparr>iov_base = ''c''\<rparr>], uio_resid = 1\<rparr>, [Wake_all May_read]))"
proof -
  let ?b = "\<lparr>q = ''ab'', receiver = Some 3, sender = Some 2\<rparr>"
  let ?rd = "\<lparr>uio_iov = [\<lparr>iov_base = ''.''\<rparr>], uio_resid = 1\<rparr>"
  let ?wd = "\<lparr>uio_iov = [\<lparr>iov_base = ''c''\<rparr>], uio_resid = 1\<rparr>"
  have r1: "read ?b ?rd = Some (Returns (0, \<lparr>q = ''b'', receiver = Some 3, sender = Some 2\<rparr>,
      \<lparr>uio_iov = [\<lparr>iov_base = ''a''\<rparr>], uio_resid = 0\<rparr>,
      (if write_events_unlocked \<lparr>q = ''b'', receiver = Some 3, sender = Some 2\<rparr> \<noteq> 0
       then [Poll_wake (Some 2) POLLOUT] else []) @ [Wake_all May_write]))"
    by (subst read_one_pass [where iov = "\<lparr>iov_base = ''.''\<rparr>" and rest = "[]" and n = 1])
      (simp_all add: iov_len_def)
  have w1: "write_buf ?b ?wd = Some (Returns (0, \<lparr>q = ''abc'', receiver = Some 3, sender = Some 2\<rparr>,
      \<lparr>uio_iov = [\<lparr>iov_base = ''c''\<rparr>], uio_resid = 0\<rparr>,
      (if read_events_unlocked \<lparr>q = ''abc'', receiver = Some 3, sender = Some 2\<rparr> \<noteq> 0
       then [Poll_wake (Some 3) POLLIN] else []) @ [Wake_all May_read]))"
    by (subst write_one_pass [where iov = "\<lparr>iov_base = ''c''\<rparr>" and rest = "[]" and n = 1])
      (simp_all add: iov_len_def max_buf_def)
  have r0: "read \<lparr>q = [], receiver = Some 3, sender = None\<rparr> ?rd
      = Some (Returns (0, \<lparr>q = [], receiver = Some 3, sender = None\<rparr>, ?rd, [Wake_all May_write]))"
    by (simp add: read_hangup)
  have w0: "write_buf \<lparr>q = [], receiver = None, sender = Some 2\<rparr> ?wd
      = Some (Returns (32, \<lparr>q = [], receiver = None, sender = Some 2\<rparr>, ?wd, [Wake_all May_read]))"
    by (simp add: write_hangup EPIPE_def)
  from wake_after_transfer [where b = ?b and data = ?rd and r = 0
      and b' = "\<lparr>q = ''b'', receiver = Some 3, sender = Some 2\<rparr>"
      and data' = "\<lparr>uio_iov = [\<lparr>iov_base = ''a''\<rparr>], uio_resid = 0\<rparr>"
      and evs = "(if write_events_unlocked \<lparr>q = ''b'', receiver = Some 3, sender = Some 2\<rparr> \<noteq> 0
       then [Poll_wake (Some 2) POLLOUT] else []) @ [Wake_all May_write]"] r1
  have a: "(if write_events_unlocked \<lparr>q = ''b'', receiver = Some 3, sender = Some 2\<rparr> \<noteq> 0
       then [Poll_wake (Some 2) POLLOUT] else []) @ [Wake_all May_write]
      = [Poll_wake (Some 2) POLLOUT, Wake_all May_write]"
    by (simp add: max_buf_def)
  from wake_after_transfer [where b = ?b and data = ?wd and r = 0
      and b' = "\<lparr>q = ''abc'', receiver = Some 3, sender = Some 2\<rparr>"
      and data' = "\<lparr>uio_iov = [\<lparr>iov_base = ''c''\<rparr>], uio_resid = 0\<rparr>"
      and evs = "(if read_events_unlocked \<lparr>q = ''abc'', receiver = Some 3, sender = Some 2\<rparr> \<noteq> 0
       then [Poll_wake (Some 3) POLLIN] else []) @ [Wake_all May_read]"] w1
  have b: "(if read_events_unlocked \<lparr>q = ''abc'', receiver = Some 3, sender = Some 2\<rparr> \<noteq> 0
       then [Poll_wake (Some 3) POLLIN] else []) @ [Wake_all May_read]
      = [Poll_wake (Some 3) POLLIN, Wake_all May_read]"
    by simp
  from r1 w1 r0 w0 a b show ?thesis by simp
qed

text \<open>
  C8, as the code has it. The factory checks the channel kind and the protocol with
  \<^verbatim>\<open>assert\<close>: a request for another kind or another protocol stops at the failed
  assertion, before the first buffer is made, and no error value is returned to the
  caller. A request for the stream kind with protocol 0 whose handles and descriptors are
  granted returns 0 with the two buffers attached crosswise; one that is refused a handle
  or a descriptor returns -1 with the error number in \<open>errno\<close> and nothing left.
\<close>

theorem socketpair_checks_by_assertion:
  "(type \<noteq> SOCK_STREAM \<or> proto \<noteq> 0 \<longrightarrow>
      socketpair_af_local type proto fa1 fa2 fd1 fd2 = Assert_failure)
   \<and> socketpair_af_local SOCK_STREAM 0 (Inr f1) (Inr f2) (Inr d1) (Inr d2)
       = Returns \<lparr>ret = 0, errno = None, sv = Some (d1, d2),
           live = Some \<lparr>buf1 = \<lparr>q = [], receiver = Some f2, sender = Some f1\<rparr>,
                         buf2 = \<lparr>q = [], receiver = Some f1, sender = Some f2\<rparr>\<rparr>\<rparr>
   \<and> socketpair_af_local SOCK_STREAM 0 (Inl e) fa2 fd1 fd2
       = Returns \<lparr>ret = - 1, errno = Some e, sv = None, live = None\<rparr>"
  by (simp add: socketpair_af_local_def libc_error_def af_local_init_def attach_sender_def
      attach_receiver_def get_buf_def set_buf_def new_af_local_buffer_def)

theorem socketpair_checks_by_assertion_witness:
  "(2::int) \<noteq> SOCK_STREAM
   \<and> socketpair_af_local 2 0 (Inr 10) (Inr 11) (Inr 3) (Inr 4) = Assert_failure
   \<and> (17::int) \<noteq> 0
   \<and> socketpair_af_local SOCK_STREAM 17 (Inr 10) (Inr 11) (Inr 3) (Inr 4) = Assert_failure"
  using socketpair_checks_by_assertion [where type = 2 and proto = 0 and ?fa1.0 = "Inr 10"
      and ?fa2.0 = "Inr 11" and ?fd1.0 = "Inr 3" and ?fd2.0 = "Inr 4"]
    socketpair_checks_by_assertion [where type = SOCK_STREAM and proto = 17 and ?fa1.0 = "Inr 10"
      and ?fa2.0 = "Inr 11" and ?fd1.0 = "Inr 3" and ?fd2.0 = "Inr 4"]
  by (simp add: SOCK_STREAM_def)

text \<open>
  The claim as stated fails: a request for the datagram kind (2) does not return: neither
  an invalid-argument error nor anything else reaches the caller.
\<close>

theorem socketpair_no_error_returned:
  "socketpair_af_local 2 0 (Inr 10) (Inr 11) (Inr 3) (Inr 4) = Assert_failure
   \<and> socketpair_af_local 2 0 (Inr 10) (Inr 11) (Inr 3) (Inr 4) \<noteq> Returns (libc_error 22)"
  by (simp add: socketpair_af_local_def SOCK_STREAM_def)

text \<open>
  C9. A read or a write whose request has length zero (\<open>uio_resid = 0\<close>) returns 0 at once:
  it does not wait, the buffer and the caller's descriptor are as before, and nothing is
  sent to the poll subsystem or to a condition variable.
\<close>

theorem zero_length_noop:
  "uio_resid data = 0 \<Longrightarrow>
   read b data = Some (Returns (0, b, data, []))
   \<and> write_buf b data = Some (Returns (0, b, data, []))"
  by (simp add: read_zero_length write_zero_length)

theorem zero_length_noop_witness:
  "uio_resid \<lparr>uio_iov = [\<lparr>iov_base = ''xy''\<rparr>], uio_resid = 0\<rparr> = 0
   \<and> read \<lparr>q = ''ab'', receiver = Some 1, sender = Some 2\<rparr>
        \<lparr>uio_iov = [\<lparr>iov_base = ''xy''\<rparr>], uio_resid = 0\<rparr>
     = Some (Returns (0, \<lparr>q = ''ab'', receiver = Some 1, sender = Some 2\<rparr>,
         \<lparr>uio_iov = [\<lparr>iov_base = ''xy''\<rparr>], uio_resid = 0\<rparr>, []))
   \<and> write_buf \<lparr>q = ''ab'', receiver = Some 1, sender = Some 2\<rparr>
        \<lparr>uio_iov = [\<lparr>iov_base = ''xy''\<rparr>], uio_resid = 0\<rparr>
     = Some (Returns (0, \<lparr>q = ''ab'', receiver = Some 1, sender = Some 2\<rparr>,
         \<lparr>uio_iov = [\<lparr>iov_base = ''xy''\<rparr>], uio_resid = 0\<rparr>, []))"
  using zero_length_noop [of "\<lparr>uio_iov = [\<lparr>iov_base = ''xy''\<rparr>], uio_resid = 0\<rparr>"
      "\<lparr>q = ''ab'', receiver = Some 1, sender = Some 2\<rparr>"]
  by simp

text \<open>
  C10. The zero-length test comes before the lock and before any look at the masks: with
  no receiver attached, where the write mask is \<open>POLLHUP\<close> and every write of one byte or
  more returns \<open>EPIPE\<close>, a zero-length write still returns 0; with no sender attached and
  an empty queue, where a read of one byte or more takes the hang-up path (and broadcasts
  on the way out), a zero-length read returns 0 with no event at all.
\<close>

theorem zero_length_before_hangup:
  "uio_resid data = 0 \<Longrightarrow> uio_resid data1 \<noteq> 0 \<Longrightarrow>
   (receiver b = None \<longrightarrow>
      write_events_unlocked b = POLLHUP
      \<and> write_buf b data = Some (Returns (0, b, data, []))
      \<and> write_buf b data1 = Some (Returns (EPIPE, b, data1, [Wake_all May_read]))
      \<and> EPIPE \<noteq> 0)
   \<and> (sender b = None \<longrightarrow>
      read_events_unlocked b AND POLLRDHUP \<noteq> 0
      \<and> read b data = Some (Returns (0, b, data, []))
      \<and> (q b = [] \<longrightarrow> read b data1 = Some (Returns (0, b, data1, [Wake_all May_write]))))"
  by (simp add: read_zero_length write_zero_length write_hangup read_hangup
      read_events_POLLRDHUP poll_bits_nonzero write_events_unlocked_def EPIPE_def)

theorem zero_length_before_hangup_witness:
  "uio_resid \<lparr>uio_iov = [], uio_resid = 0\<rparr> = 0
   \<and> uio_resid \<lparr>uio_iov = [\<lparr>iov_base = ''x''\<rparr>], uio_resid = 1\<rparr> \<noteq> 0
   \<and> receiver \<lparr>q = [], receiver = None, sender = None\<rparr> = None
   \<and> sender \<lparr>q = [], receiver = None, sender = None\<rparr> = None
   \<and> write_buf \<lparr>q = [], receiver = None, sender = None\<rparr> \<lparr>uio_iov = [], uio_resid = 0\<rparr>
       = Some (Returns (0, \<lparr>q = [], receiver = None, sender = None\<rparr>,
           \<lparr>uio_iov = [], uio_resid = 0\<rparr>, []))
   \<and> write_buf \<lparr>q = [], receiver = None, sender = None\<rparr>
         \<lparr>uio_iov = [\<lparr>iov_base = ''x''\<rparr>], uio_resid = 1\<rparr>
       = Some (Returns (32, \<lparr>q = [], receiver = None, sender = None\<rparr>,
           \<lparr>uio_iov = [\<lparr>iov_base = ''x''\<rparr>], uio_resid = 1\<rparr>, [Wake_all May_read]))
   \<and> read \<lparr>q = [], receiver = None, sender = None\<rparr> \<lparr>uio_iov = [], uio_resid = 0\<rparr>
       = Some (Returns (0, \<lparr>q = [], receiver = None, sender = None\<rparr>,
           \<lparr>uio_iov = [], uio_resid = 0\<rparr>, []))
   \<and> read \<lparr>q = [], receiver = None, sender = None\<rparr>
         \<lparr>uio_iov = [\<lparr>iov_base = ''x''\<rparr>], uio_resid = 1\<rparr>
       = Some (Returns (0, \<lparr>q = [], receiver = None, sender = None\<rparr>,
           \<lparr>uio_iov = [\<lparr>iov_base = ''x''\<rparr>], uio_resid = 1\<rparr>, [Wake_all May_write]))"
  using zero_length_before_hangup [of "\<lparr>uio_iov = [], uio_resid = 0\<rparr>"
      "\<lparr>uio_iov = [\<lparr>iov_base = ''x''\<rparr>], uio_resid = 1\<rparr>"
      "\<lparr>q = [], receiver = None, sender = None\<rparr>"]
  by (simp add: EPIPE_def)

end
